theory Spec2Isabelle
  imports Complex_Main
begin

chapter \<open>Sheetra: document model, layout engine, aggregation and writers\<close>

text \<open>
  A shallow embedding of the TypeScript sources of sheetra: the document model
  (\<^verbatim>\<open>core/cell.ts\<close>, \<^verbatim>\<open>core/row.ts\<close>, \<^verbatim>\<open>core/column.ts\<close>, \<^verbatim>\<open>core/worksheet.ts\<close>,
  \<^verbatim>\<open>core/workbook.ts\<close>), the style builder (\<^verbatim>\<open>core/styles.ts\<close>), the section builder
  (\<^verbatim>\<open>builders/section-builder.ts\<close>), the export builder (\<^verbatim>\<open>builders/export-builder.ts\<close>)
  and the three writers (\<^verbatim>\<open>writers/*.ts\<close>). The first part holds the definitions, each
  next to the name of the source function it follows, together with the facts that their
  termination proofs need; the second part holds the theorems.
\<close>

section \<open>JavaScript values\<close>

text \<open>
  Exceptions are values. \<open>Error msg\<close> is \<^verbatim>\<open>new Error(msg)\<close>; the other three are the
  built-in error classes the modelled code can raise.
\<close>

datatype js_error = TypeError | ReferenceError | RangeError | Error string

subsection \<open>Numbers\<close>

text \<open>
  A number is an IEEE 754 double. A finite double is given by its exact value, a rational
  number; the other numbers are \<open>Infinity\<close>, \<open>-Infinity\<close> and \<open>NaN\<close>. The two zeros are not
  told apart.
\<close>

datatype jsnum = Fin rat | PInf | NInf | NaN

text \<open>\<open>pow2 e\<close> is \<open>2\<close> to the power \<open>e\<close> for an integer \<open>e\<close>.\<close>

definition pow2 :: "int \<Rightarrow> rat" where
  "pow2 e = (if 0 \<le> e then 2 ^ nat e else 1 / 2 ^ nat (- e))"

text \<open>The integer nearest to \<open>x\<close>, the even one of the two when \<open>x\<close> is half-way.\<close>

definition round_half_even :: "rat \<Rightarrow> int" where
  "round_half_even x =
     (let k = \<lfloor>x\<rfloor>; r = x - of_int k
      in if r < 1 / 2 then k else if 1 / 2 < r then k + 1 else if even k then k else k + 1)"

text \<open>
  The binary exponent of \<open>x > 0\<close> within the range of normal doubles: the \<open>e\<close> with
  \<open>2^e \<le> x < 2^(e+1)\<close>, at most 1023 and at least -1022. The two searches start from
  \<open>e = 0\<close> upwards for \<open>x \<ge> 1\<close> and from \<open>e = -1\<close> downwards for \<open>x < 1\<close>.
\<close>

function exponent_up :: "rat \<Rightarrow> nat \<Rightarrow> nat" where
  "exponent_up x e = (if e < 1023 \<and> 2 * 2 ^ e \<le> x then exponent_up x (e + 1) else e)"
  by pat_completeness auto
termination
  by (relation "measure (\<lambda>(x, e). 1023 - e)") auto

function exponent_down :: "rat \<Rightarrow> nat \<Rightarrow> nat" where
  "exponent_down x f = (if f < 1022 \<and> x * 2 ^ f < 1 then exponent_down x (f + 1) else f)"
  by pat_completeness auto
termination
  by (relation "measure (\<lambda>(x, f). 1022 - f)") auto

definition exponent :: "rat \<Rightarrow> int" where
  "exponent x = (if 1 \<le> x then int (exponent_up x 0) else - int (exponent_down x 1))"

text \<open>
  Rounding to nearest, ties to even: the double that an arithmetic operation returns when
  its exact result is \<open>x\<close>. The significand has 53 bits, so the result is a multiple of
  \<open>2^(e - 52)\<close> where \<open>e\<close> is the exponent of \<open>x\<close>; with the least exponent -1022 this covers
  the subnormal numbers. A result of \<open>2^1024\<close> or more stands for an overflow.
\<close>

definition round_pos :: "rat \<Rightarrow> rat" where
  "round_pos x = (let q = exponent x - 52 in of_int (round_half_even (x / pow2 q)) * pow2 q)"

definition nearest_double :: "rat \<Rightarrow> rat" where
  "nearest_double x = (if x < 0 then - round_pos (- x) else round_pos x)"

text \<open>The number an operation returns for the exact result \<open>x\<close>, an infinity on overflow.\<close>

definition number_of :: "rat \<Rightarrow> jsnum" where
  "number_of x =
     (let y = nearest_double x
      in if 2 ^ 1024 \<le> y then PInf else if y \<le> - (2 ^ 1024) then NInf else Fin y)"

text \<open>
  Truncation towards zero, and the remainder \<^verbatim>\<open>n % d\<close> of finite numbers with \<open>d \<noteq> 0\<close>:
  it has the sign of \<open>n\<close> and is exact.
\<close>

definition trunc :: "rat \<Rightarrow> int" where
  "trunc x = (if x < 0 then \<lceil>x\<rceil> else \<lfloor>x\<rfloor>)"

definition remainder :: "rat \<Rightarrow> rat \<Rightarrow> rat" where
  "remainder n d = n - d * of_int (trunc (n / d))"

text \<open>
  \<^verbatim>\<open>String.fromCharCode(x)\<close> for a finite \<open>x\<close>: the code unit is \<open>x\<close> truncated, modulo
  \<open>2^16\<close>. A \<open>char\<close> holds the code units below 256.
\<close>

definition fromCharCode :: "rat \<Rightarrow> char" where
  "fromCharCode x = char_of (nat (trunc x mod 65536))"

subsection \<open>Values\<close>

text \<open>
  The values a cell holds (\<^verbatim>\<open>value: any\<close>). A \<^verbatim>\<open>Date\<close> is its time value in milliseconds,
  \<open>None\<close> for an invalid date.
\<close>

datatype jsval =
    JNull
  | JUndefined
  | JBool bool
  | JNum jsnum
  | JStr string
  | JDate "int option"

text \<open>ToBoolean: what \<^verbatim>\<open>if (v)\<close>, \<^verbatim>\<open>v ? a : b\<close> and \<^verbatim>\<open>v || d\<close> test.\<close>

fun truthy :: "jsval \<Rightarrow> bool" where
  "truthy JNull = False"
| "truthy JUndefined = False"
| "truthy (JBool b) = b"
| "truthy (JNum n) = (n \<noteq> Fin 0 \<and> n \<noteq> NaN)"
| "truthy (JStr s) = (s \<noteq> [])"
| "truthy (JDate d) = True"

text \<open>Characters the writers look for.\<close>

definition dquote :: char where
  "dquote = CHR 0x22"

definition newline :: char where
  "newline = CHR 0x0A"

definition comma :: char where
  "comma = CHR '',''"

text \<open>
  Number to decimal string, as \<^verbatim>\<open>String(n)\<close> and template literals render an integer
  below \<open>2^53\<close> in magnitude.
\<close>

definition digit_char :: "nat \<Rightarrow> char" where
  "digit_char d = char_of (d + 48)"

function show_nat :: "nat \<Rightarrow> string" where
  "show_nat n = (if n < 10 then [digit_char n] else show_nat (n div 10) @ [digit_char (n mod 10)])"
  by pat_completeness auto
termination
  by (relation "measure id") auto

definition show_int :: "int \<Rightarrow> string" where
  "show_int i = (if i < 0 then CHR ''-'' # show_nat (nat (- i)) else show_nat (nat i))"

text \<open>
  What the host (the JavaScript engine and the parts of the library that are not among the
  sources) contributes to the writers: \<^verbatim>\<open>String(date)\<close>, whose text depends on the time
  zone, \<^verbatim>\<open>String(x)\<close> for a finite number \<open>x\<close> that is not an integer below \<open>2^53\<close> in
  magnitude (the shortest decimal form that reads back as \<open>x\<close>, in exponent notation from
  \<open>10^21\<close> on), \<^verbatim>\<open>Date.prototype.toISOString\<close> on a valid date,
  \<^verbatim>\<open>DateFormatter.toExcelDate\<close>, and \<^verbatim>\<open>JSON.stringify(records, null, 2)\<close> on an array of
  flat records (each given as its entries in \<^verbatim>\<open>Object.entries\<close> order).
\<close>

record js_host =
  dateToString :: "int option \<Rightarrow> string"
  numberToString :: "rat \<Rightarrow> string"
  toISOString :: "int \<Rightarrow> string"
  toExcelDate :: "jsval \<Rightarrow> js_error + jsval"
  JSON_stringify :: "(string \<times> jsval) list list \<Rightarrow> string"

text \<open>
  \<^verbatim>\<open>String(x)\<close> for a number. Every integer below \<open>2^53\<close> in magnitude is a double of
  its own, so its shortest decimal form is its decimal numeral.
\<close>

fun Number_toString :: "js_host \<Rightarrow> jsnum \<Rightarrow> string" where
  "Number_toString h (Fin x) =
     (if of_int \<lfloor>x\<rfloor> = x \<and> \<bar>x\<bar> < 2 ^ 53 then show_int \<lfloor>x\<rfloor> else numberToString h x)"
| "Number_toString h PInf = ''Infinity''"
| "Number_toString h NInf = ''-Infinity''"
| "Number_toString h NaN = ''NaN''"

text \<open>\<^verbatim>\<open>String(v)\<close>.\<close>

fun js_String :: "js_host \<Rightarrow> jsval \<Rightarrow> string" where
  "js_String h JNull = ''null''"
| "js_String h JUndefined = ''undefined''"
| "js_String h (JBool b) = (if b then ''true'' else ''false'')"
| "js_String h (JNum n) = Number_toString h n"
| "js_String h (JStr s) = s"
| "js_String h (JDate d) = dateToString h d"

text \<open>\<^verbatim>\<open>xs.join(sep)\<close> on a list of strings.\<close>

fun join :: "string \<Rightarrow> string list \<Rightarrow> string" where
  "join sep [] = []"
| "join sep [x] = x"
| "join sep (x # y # ys) = x @ sep @ join sep (y # ys)"

subsection \<open>Plain objects used as dictionaries\<close>

text \<open>
  An object literal \<^verbatim>\<open>{}\<close> that the code fills by \<^verbatim>\<open>obj[key] = v\<close> is the list of its own
  properties in creation order. Reading \<^verbatim>\<open>obj[key]\<close> also finds the properties every object
  inherits from \<^verbatim>\<open>Object.prototype\<close>; their names are listed here.
\<close>

type_synonym 'v js_object = "(string \<times> 'v) list"

definition object_prototype_keys :: "string list" where
  "object_prototype_keys =
     [''constructor'', ''__defineGetter__'', ''__defineSetter__'', ''hasOwnProperty'',
      ''__lookupGetter__'', ''__lookupSetter__'', ''isPrototypeOf'', ''propertyIsEnumerable'',
      ''toString'', ''valueOf'', ''__proto__'', ''toLocaleString'']"

text \<open>
  \<^verbatim>\<open>obj[key] = v\<close>: an existing own property keeps its place, a new one goes last. The key
  \<^verbatim>\<open>__proto__\<close> is an accessor of the prototype, so assigning to it creates no own property.
\<close>

fun obj_update :: "string \<Rightarrow> 'v \<Rightarrow> 'v js_object \<Rightarrow> 'v js_object" where
  "obj_update k v [] = [(k, v)]"
| "obj_update k v ((k', v') # ps) =
     (if k = k' then (k, v) # ps else (k', v') # obj_update k v ps)"

definition obj_assign :: "string \<Rightarrow> 'v \<Rightarrow> 'v js_object \<Rightarrow> 'v js_object" where
  "obj_assign k v obj = (if k = ''__proto__'' then obj else obj_update k v obj)"

text \<open>
  The order of \<^verbatim>\<open>Object.keys\<close>, \<^verbatim>\<open>Object.entries\<close> and \<^verbatim>\<open>JSON.stringify\<close>
  (OrdinaryOwnPropertyKeys): first the keys that are array indices (canonical decimal
  numerals below \<open>2^32 - 1\<close>) in ascending numeric order, then the other keys in creation
  order.
\<close>

definition is_digit :: "char \<Rightarrow> bool" where
  "is_digit c = (48 \<le> (of_char c :: nat) \<and> (of_char c :: nat) \<le> 57)"

definition digits_value :: "string \<Rightarrow> int" where
  "digits_value s = foldl (\<lambda>a c. 10 * a + (of_char c - 48)) 0 s"

definition is_array_index :: "string \<Rightarrow> bool" where
  "is_array_index s =
     (s \<noteq> [] \<and> list_all is_digit s \<and> (s = ''0'' \<or> hd s \<noteq> CHR ''0'')
      \<and> digits_value s \<le> 4294967294)"

definition Object_entries :: "'v js_object \<Rightarrow> (string \<times> 'v) list" where
  "Object_entries obj =
     sort_key (\<lambda>p. digits_value (fst p)) (filter (\<lambda>p. is_array_index (fst p)) obj)
     @ filter (\<lambda>p. \<not> is_array_index (fst p)) obj"

section \<open>The document model\<close>

subsection \<open>Styles (types/cell.types.ts, as core/styles.ts uses them)\<close>

record BorderStyle =
  bs_style :: string
  bs_color :: "string option"

record Border =
  border_top :: "BorderStyle option"
  border_right :: "BorderStyle option"
  border_bottom :: "BorderStyle option"
  border_left :: "BorderStyle option"

text \<open>
  A \<^verbatim>\<open>CellStyle\<close> object: every field optional. The type parameter is what the
  \<^verbatim>\<open>border\<close> field holds: a \<open>Border\<close> when the style is read as a value, the address of
  a \<^verbatim>\<open>Border\<close> object where sharing matters (the style builder below). The document
  model passes styles through unchanged.
\<close>

record 'b style_fields =
  cs_bold :: "bool option"
  cs_italic :: "bool option"
  cs_underline :: "bool option"
  cs_fontSize :: "jsnum option"
  cs_fontFamily :: "string option"
  cs_color :: "string option"
  cs_backgroundColor :: "string option"
  cs_alignment :: "string option"
  cs_verticalAlignment :: "string option"
  cs_wrapText :: "bool option"
  cs_border :: "'b option"
  cs_numberFormat :: "string option"

type_synonym CellStyle = "Border style_fields"

subsection \<open>Cell (core/cell.ts)\<close>

datatype cell_type = TString | TNumber | TDate | TBoolean | TFormula

fun type_name :: "cell_type \<Rightarrow> string" where
  "type_name TString = ''string''"
| "type_name TNumber = ''number''"
| "type_name TDate = ''date''"
| "type_name TBoolean = ''boolean''"
| "type_name TFormula = ''formula''"

text \<open>
  The members of \<^verbatim>\<open>validTypes\<close> in \<^verbatim>\<open>Cell.fromData\<close>, in the order of the source; any
  other string is not a cell type.
\<close>

definition validTypes :: "cell_type list" where
  "validTypes = [TString, TNumber, TBoolean, TDate, TFormula]"

definition find_type :: "string \<Rightarrow> cell_type option" where
  "find_type s = find (\<lambda>t. type_name t = s) validTypes"

text \<open>The private fields of \<^verbatim>\<open>class Cell\<close> with their initial values.\<close>

record Cell =
  cell_value :: jsval
  cell_style :: "CellStyle option"
  cell_formula :: "string option"
  cell_type :: cell_type

definition new_Cell :: Cell where
  "new_Cell = \<lparr>cell_value = JNull, cell_style = None, cell_formula = None, cell_type = TString\<rparr>"

definition inferType :: "Cell \<Rightarrow> Cell" where
  "inferType c =
     (case cell_value c of
        JDate d \<Rightarrow> c\<lparr>cell_type := TDate\<rparr>
      | JNum n \<Rightarrow> c\<lparr>cell_type := TNumber\<rparr>
      | JBool b \<Rightarrow> c\<lparr>cell_type := TBoolean\<rparr>
      | _ \<Rightarrow> c\<lparr>cell_type := TString\<rparr>)"

definition setValue :: "jsval \<Rightarrow> Cell \<Rightarrow> Cell" where
  "setValue v c = inferType (c\<lparr>cell_value := v\<rparr>)"

definition setStyle :: "CellStyle option \<Rightarrow> Cell \<Rightarrow> Cell" where
  "setStyle s c = c\<lparr>cell_style := s\<rparr>"

definition setFormula :: "string \<Rightarrow> Cell \<Rightarrow> Cell" where
  "setFormula f c = c\<lparr>cell_formula := Some f, cell_type := TFormula\<rparr>"

definition setType :: "cell_type \<Rightarrow> Cell \<Rightarrow> Cell" where
  "setType t c = c\<lparr>cell_type := t\<rparr>"

text \<open>
  \<^verbatim>\<open>new Cell(value, style)\<close>: the value is set unless it is \<^verbatim>\<open>undefined\<close>, the style
  when one is given.
\<close>

definition Cell_new :: "jsval \<Rightarrow> CellStyle option \<Rightarrow> Cell" where
  "Cell_new v s =
     (let c1 = (if v \<noteq> JUndefined then setValue v new_Cell else new_Cell)
      in case s of None \<Rightarrow> c1 | Some st \<Rightarrow> setStyle (Some st) c1)"

text \<open>
  \<^verbatim>\<open>CellData\<close>: the plain object \<^verbatim>\<open>toData\<close> returns and \<^verbatim>\<open>fromData\<close> reads. Its
  \<^verbatim>\<open>type\<close> is whatever the caller wrote, or absent.
\<close>

record CellData =
  cd_value :: jsval
  cd_style :: "CellStyle option"
  cd_formula :: "string option"
  cd_type :: "string option"

definition Cell_toData :: "Cell \<Rightarrow> CellData" where
  "Cell_toData c =
     \<lparr>cd_value = cell_value c, cd_style = cell_style c, cd_formula = cell_formula c,
      cd_type = Some (type_name (cell_type c))\<rparr>"

text \<open>
  \<^verbatim>\<open>Cell.fromData\<close>. The last test of the source, \<^verbatim>\<open>cell.value && !cell.type\<close>, reads the
  type just assigned: a non-empty string, so \<^verbatim>\<open>!cell.type\<close> is false.
\<close>

definition Cell_fromData :: "CellData \<Rightarrow> Cell" where
  "Cell_fromData d =
     (let c = new_Cell\<lparr>cell_value := cd_value d, cell_style := cd_style d,
                       cell_formula := cd_formula d,
                       cell_type := (case cd_type d of
                                       None \<Rightarrow> TString
                                     | Some s \<Rightarrow> (case find_type s of
                                                    Some t \<Rightarrow> t
                                                  | None \<Rightarrow> TString))\<rparr>
      in if truthy (cell_value c) \<and> type_name (cell_type c) = [] then inferType c else c)"

subsection \<open>Row (core/row.ts) and Column (core/column.ts)\<close>

text \<open>
  Heights and widths are numbers that are only stored. The outline level is what
  \<^verbatim>\<open>setOutlineLevel(level)\<close> was given: nothing checks it, so it is any number, or
  \<^verbatim>\<open>undefined\<close> (\<open>None\<close>) when the caller had no level to pass, as
  \<^verbatim>\<open>ExportBuilder.addSection\<close> does with \<^verbatim>\<open>headerRow.setOutlineLevel(config.level)\<close> for a
  configuration without a level (its data rows then get \<^verbatim>\<open>config.level + 1\<close>, which is NaN).
\<close>

record Row =
  row_cells :: "Cell list"
  row_height :: "jsnum option"
  row_hidden :: bool
  row_outlineLevel :: "jsnum option"
  row_collapsed :: bool

text \<open>\<^verbatim>\<open>new Row()\<close> and \<^verbatim>\<open>row.setOutlineLevel(level, collapsed)\<close>.\<close>

definition new_Row :: Row where
  "new_Row = \<lparr>row_cells = [], row_height = None, row_hidden = False,
              row_outlineLevel = Some (Fin 0), row_collapsed = False\<rparr>"

definition Row_setOutlineLevel :: "jsnum option \<Rightarrow> bool \<Rightarrow> Row \<Rightarrow> Row" where
  "Row_setOutlineLevel level collapsed r = r\<lparr>row_outlineLevel := level, row_collapsed := collapsed\<rparr>"

record RowData =
  rd_cells :: "CellData list"
  rd_height :: "jsnum option"
  rd_hidden :: "bool option"
  rd_outlineLevel :: "jsnum option"
  rd_collapsed :: "bool option"

text \<open>
  \<^verbatim>\<open>b || false\<close> on a boolean that may be missing, and \<^verbatim>\<open>x || 0\<close> on a number that may be
  missing: \<^verbatim>\<open>undefined\<close>, NaN and 0 are falsy and give 0.
\<close>

definition or_false :: "bool option \<Rightarrow> bool" where
  "or_false b = (case b of None \<Rightarrow> False | Some x \<Rightarrow> x)"

definition or_zero :: "jsnum option \<Rightarrow> jsnum" where
  "or_zero n = (case n of None \<Rightarrow> Fin 0 | Some x \<Rightarrow> (if x = Fin 0 \<or> x = NaN then Fin 0 else x))"

definition Row_toData :: "Row \<Rightarrow> RowData" where
  "Row_toData r =
     \<lparr>rd_cells = map Cell_toData (row_cells r), rd_height = row_height r,
      rd_hidden = Some (row_hidden r), rd_outlineLevel = row_outlineLevel r,
      rd_collapsed = Some (row_collapsed r)\<rparr>"

definition Row_fromData :: "RowData \<Rightarrow> Row" where
  "Row_fromData d =
     \<lparr>row_cells = map Cell_fromData (rd_cells d), row_height = rd_height d,
      row_hidden = or_false (rd_hidden d), row_outlineLevel = Some (or_zero (rd_outlineLevel d)),
      row_collapsed = or_false (rd_collapsed d)\<rparr>"

record Column =
  col_width :: "jsnum option"
  col_hidden :: bool
  col_outlineLevel :: "jsnum option"
  col_collapsed :: bool

text \<open>\<^verbatim>\<open>new Column(width)\<close> and \<^verbatim>\<open>column.setOutlineLevel(level, collapsed)\<close>.\<close>

definition new_Column :: "jsnum option \<Rightarrow> Column" where
  "new_Column width = \<lparr>col_width = width, col_hidden = False,
                        col_outlineLevel = Some (Fin 0), col_collapsed = False\<rparr>"

definition Column_setOutlineLevel :: "jsnum option \<Rightarrow> bool \<Rightarrow> Column \<Rightarrow> Column" where
  "Column_setOutlineLevel level collapsed c =
     c\<lparr>col_outlineLevel := level, col_collapsed := collapsed\<rparr>"

record ColumnData =
  cld_width :: "jsnum option"
  cld_hidden :: "bool option"
  cld_outlineLevel :: "jsnum option"
  cld_collapsed :: "bool option"

definition Column_toData :: "Column \<Rightarrow> ColumnData" where
  "Column_toData c =
     \<lparr>cld_width = col_width c, cld_hidden = Some (col_hidden c),
      cld_outlineLevel = col_outlineLevel c, cld_collapsed = Some (col_collapsed c)\<rparr>"

definition Column_fromData :: "ColumnData \<Rightarrow> Column" where
  "Column_fromData d =
     \<lparr>col_width = cld_width d, col_hidden = or_false (cld_hidden d),
      col_outlineLevel = Some (or_zero (cld_outlineLevel d)),
      col_collapsed = or_false (cld_collapsed d)\<rparr>"

subsection \<open>Worksheet (core/worksheet.ts) and Workbook (core/workbook.ts)\<close>

record MergeCell =
  mc_startRow :: int
  mc_startCol :: int
  mc_endRow :: int
  mc_endCol :: int

record FreezePane =
  fp_rows :: "int option"
  fp_columns :: "int option"

text \<open>\<^verbatim>\<open>PrintOptions\<close> and the workbook's properties are objects that are only stored.\<close>

type_synonym PrintOptions = "jsval js_object"

record Worksheet =
  ws_name :: string
  ws_rows :: "Row list"
  ws_columns :: "Column list"
  ws_mergedCells :: "MergeCell list"
  ws_freezePane :: "FreezePane option"
  ws_printOptions :: "PrintOptions option"

record WorksheetData =
  wsd_name :: string
  wsd_rows :: "RowData list"
  wsd_columns :: "ColumnData list option"
  wsd_mergeCells :: "MergeCell list option"
  wsd_freezePane :: "FreezePane option"
  wsd_printOptions :: "PrintOptions option"

definition or_empty :: "'a list option \<Rightarrow> 'a list" where
  "or_empty xs = (case xs of None \<Rightarrow> [] | Some ys \<Rightarrow> ys)"

definition Worksheet_toData :: "Worksheet \<Rightarrow> WorksheetData" where
  "Worksheet_toData s =
     \<lparr>wsd_name = ws_name s, wsd_rows = map Row_toData (ws_rows s),
      wsd_columns = Some (map Column_toData (ws_columns s)),
      wsd_mergeCells = Some (ws_mergedCells s), wsd_freezePane = ws_freezePane s,
      wsd_printOptions = ws_printOptions s\<rparr>"

definition Worksheet_fromData :: "WorksheetData \<Rightarrow> Worksheet" where
  "Worksheet_fromData d =
     \<lparr>ws_name = wsd_name d, ws_rows = map Row_fromData (wsd_rows d),
      ws_columns = map Column_fromData (or_empty (wsd_columns d)),
      ws_mergedCells = or_empty (wsd_mergeCells d), ws_freezePane = wsd_freezePane d,
      ws_printOptions = wsd_printOptions d\<rparr>"

record Workbook =
  wb_sheets :: "Worksheet list"
  wb_properties :: "jsval js_object"

record WorkbookData =
  wbd_sheets :: "WorksheetData list"
  wbd_properties :: "jsval js_object option"

definition Workbook_toData :: "Workbook \<Rightarrow> WorkbookData" where
  "Workbook_toData w =
     \<lparr>wbd_sheets = map Worksheet_toData (wb_sheets w), wbd_properties = Some (wb_properties w)\<rparr>"

text \<open>\<^verbatim>\<open>Workbook.fromData(data)\<close> is \<^verbatim>\<open>new Workbook(data)\<close>, which runs the instance method.\<close>

definition Workbook_fromData :: "WorkbookData \<Rightarrow> Workbook" where
  "Workbook_fromData d =
     \<lparr>wb_sheets = map Worksheet_fromData (wbd_sheets d),
      wb_properties = or_empty (wbd_properties d)\<rparr>"

section \<open>The style builder (core/styles.ts)\<close>

text \<open>
  \<^verbatim>\<open>StyleBuilder\<close> keeps one \<^verbatim>\<open>CellStyle\<close> object, \<^verbatim>\<open>this.style\<close>, whose \<^verbatim>\<open>border\<close> field
  refers to a separate \<^verbatim>\<open>Border\<close> object. The store maps the addresses of \<^verbatim>\<open>Border\<close>
  objects to their current contents; \<open>sb_next\<close> is the next unused address.
\<close>

type_synonym addr = nat

type_synonym StyleRef = "addr style_fields"

record sb_state =
  sb_heap :: "addr \<Rightarrow> Border option"
  sb_next :: addr
  sb_style :: StyleRef

definition empty_style :: "'b style_fields" where
  "empty_style =
     \<lparr>cs_bold = None, cs_italic = None, cs_underline = None, cs_fontSize = None,
      cs_fontFamily = None, cs_color = None, cs_backgroundColor = None, cs_alignment = None,
      cs_verticalAlignment = None, cs_wrapText = None, cs_border = None,
      cs_numberFormat = None\<rparr>"

definition empty_Border :: Border where
  "empty_Border =
     \<lparr>border_top = None, border_right = None, border_bottom = None, border_left = None\<rparr>"

definition StyleBuilder_create :: sb_state where
  "StyleBuilder_create = \<lparr>sb_heap = (\<lambda>a. None), sb_next = 0, sb_style = empty_style\<rparr>"

text \<open>A new \<^verbatim>\<open>Border\<close> object (an object literal) with the given contents.\<close>

definition alloc_Border :: "Border \<Rightarrow> sb_state \<Rightarrow> addr \<times> sb_state" where
  "alloc_Border b st =
     (sb_next st, st\<lparr>sb_heap := (sb_heap st)(sb_next st \<mapsto> b), sb_next := Suc (sb_next st)\<rparr>)"

text \<open>
  The calls of the builder. A missing \<^verbatim>\<open>style\<close> argument of a border call is \<open>None\<close> and
  defaults to \<^verbatim>\<open>'thin'\<close>. \<open>CallBorder b\<close> passes a \<^verbatim>\<open>Border\<close> object of the caller's, which
  the builder stores by reference.
\<close>

datatype sb_call =
    CallBold bool
  | CallItalic bool
  | CallUnderline bool
  | CallFontSize jsnum
  | CallFontFamily string
  | CallColor string
  | CallBackgroundColor string
  | CallAlign string
  | CallVerticalAlign string
  | CallWrapText bool
  | CallBorder Border
  | CallBorderTop "string option" "string option"
  | CallBorderRight "string option" "string option"
  | CallBorderBottom "string option" "string option"
  | CallBorderLeft "string option" "string option"
  | CallBorderAll "string option" "string option"
  | CallNumberFormat string

definition or_thin :: "string option \<Rightarrow> string" where
  "or_thin s = (case s of None \<Rightarrow> ''thin'' | Some x \<Rightarrow> x)"

text \<open>
  \<^verbatim>\<open>if (!this.style.border) this.style.border = {};\<close> followed by the assignment to one
  side of \<^verbatim>\<open>this.style.border\<close>: the object the field refers to is updated in place.
\<close>

definition ensure_border :: "sb_state \<Rightarrow> addr \<times> sb_state" where
  "ensure_border st =
     (case cs_border (sb_style st) of
        Some a \<Rightarrow> (a, st)
      | None \<Rightarrow>
          (let (a, st1) = alloc_Border empty_Border st
           in (a, st1\<lparr>sb_style := (sb_style st1)\<lparr>cs_border := Some a\<rparr>\<rparr>)))"

definition set_side :: "(Border \<Rightarrow> Border) \<Rightarrow> sb_state \<Rightarrow> sb_state" where
  "set_side upd st =
     (let (a, st1) = ensure_border st
      in case sb_heap st1 a of
           Some b \<Rightarrow> st1\<lparr>sb_heap := (sb_heap st1)(a \<mapsto> upd b)\<rparr>
         | None \<Rightarrow> st1\<lparr>sb_heap := (sb_heap st1)(a \<mapsto> upd empty_Border)\<rparr>)"

fun sb_apply :: "sb_call \<Rightarrow> sb_state \<Rightarrow> sb_state" where
  "sb_apply (CallBold b) st = st\<lparr>sb_style := (sb_style st)\<lparr>cs_bold := Some b\<rparr>\<rparr>"
| "sb_apply (CallItalic b) st = st\<lparr>sb_style := (sb_style st)\<lparr>cs_italic := Some b\<rparr>\<rparr>"
| "sb_apply (CallUnderline b) st = st\<lparr>sb_style := (sb_style st)\<lparr>cs_underline := Some b\<rparr>\<rparr>"
| "sb_apply (CallFontSize n) st = st\<lparr>sb_style := (sb_style st)\<lparr>cs_fontSize := Some n\<rparr>\<rparr>"
| "sb_apply (CallFontFamily f) st = st\<lparr>sb_style := (sb_style st)\<lparr>cs_fontFamily := Some f\<rparr>\<rparr>"
| "sb_apply (CallColor c) st = st\<lparr>sb_style := (sb_style st)\<lparr>cs_color := Some c\<rparr>\<rparr>"
| "sb_apply (CallBackgroundColor c) st =
     st\<lparr>sb_style := (sb_style st)\<lparr>cs_backgroundColor := Some c\<rparr>\<rparr>"
| "sb_apply (CallAlign a) st = st\<lparr>sb_style := (sb_style st)\<lparr>cs_alignment := Some a\<rparr>\<rparr>"
| "sb_apply (CallVerticalAlign a) st =
     st\<lparr>sb_style := (sb_style st)\<lparr>cs_verticalAlignment := Some a\<rparr>\<rparr>"
| "sb_apply (CallWrapText w) st = st\<lparr>sb_style := (sb_style st)\<lparr>cs_wrapText := Some w\<rparr>\<rparr>"
| "sb_apply (CallBorder b) st =
     (let (a, st1) = alloc_Border b st
      in st1\<lparr>sb_style := (sb_style st1)\<lparr>cs_border := Some a\<rparr>\<rparr>)"
| "sb_apply (CallBorderTop s c) st =
     set_side (\<lambda>b. b\<lparr>border_top := Some \<lparr>bs_style = or_thin s, bs_color = c\<rparr>\<rparr>) st"
| "sb_apply (CallBorderRight s c) st =
     set_side (\<lambda>b. b\<lparr>border_right := Some \<lparr>bs_style = or_thin s, bs_color = c\<rparr>\<rparr>) st"
| "sb_apply (CallBorderBottom s c) st =
     set_side (\<lambda>b. b\<lparr>border_bottom := Some \<lparr>bs_style = or_thin s, bs_color = c\<rparr>\<rparr>) st"
| "sb_apply (CallBorderLeft s c) st =
     set_side (\<lambda>b. b\<lparr>border_left := Some \<lparr>bs_style = or_thin s, bs_color = c\<rparr>\<rparr>) st"
| "sb_apply (CallBorderAll s c) st =
     (let borderStyle = \<lparr>bs_style = or_thin s, bs_color = c\<rparr>;
          (a, st1) = alloc_Border \<lparr>border_top = Some borderStyle, border_right = Some borderStyle,
                                   border_bottom = Some borderStyle, border_left = Some borderStyle\<rparr> st
      in st1\<lparr>sb_style := (sb_style st1)\<lparr>cs_border := Some a\<rparr>\<rparr>)"
| "sb_apply (CallNumberFormat f) st =
     st\<lparr>sb_style := (sb_style st)\<lparr>cs_numberFormat := Some f\<rparr>\<rparr>"

text \<open>A sequence of calls, first call first.\<close>

definition sb_run :: "sb_call list \<Rightarrow> sb_state \<Rightarrow> sb_state" where
  "sb_run calls st = fold sb_apply calls st"

text \<open>
  \<^verbatim>\<open>build()\<close> returns \<^verbatim>\<open>{ ...this.style }\<close>: a new object with the same field values, so
  its \<^verbatim>\<open>border\<close> field holds the same address as the builder's.
\<close>

definition StyleBuilder_build :: "sb_state \<Rightarrow> StyleRef" where
  "StyleBuilder_build st = sb_style st"

text \<open>What a holder of a returned style reads from it in a given store.\<close>

definition style_value :: "(addr \<Rightarrow> Border option) \<Rightarrow> StyleRef \<Rightarrow> CellStyle" where
  "style_value h s =
     \<lparr>cs_bold = cs_bold s, cs_italic = cs_italic s, cs_underline = cs_underline s,
      cs_fontSize = cs_fontSize s, cs_fontFamily = cs_fontFamily s, cs_color = cs_color s,
      cs_backgroundColor = cs_backgroundColor s, cs_alignment = cs_alignment s,
      cs_verticalAlignment = cs_verticalAlignment s, cs_wrapText = cs_wrapText s,
      cs_border = (case cs_border s of None \<Rightarrow> None | Some a \<Rightarrow> h a),
      cs_numberFormat = cs_numberFormat s\<rparr>"

section \<open>Aggregation (builders/section-builder.ts)\<close>

text \<open>
  The arithmetic of the aggregates on numbers: the sum and the quotient of finite numbers are
  rounded to the nearest double, and the operations follow IEEE 754 on the special values. A
  field value is \<open>None\<close> when it is \<^verbatim>\<open>null\<close> or \<^verbatim>\<open>undefined\<close> (also when the field path is
  missing).
\<close>

fun jadd :: "jsnum \<Rightarrow> jsnum \<Rightarrow> jsnum" where
  "jadd (Fin a) (Fin b) = number_of (a + b)"
| "jadd NaN y = NaN"
| "jadd x NaN = NaN"
| "jadd PInf NInf = NaN"
| "jadd NInf PInf = NaN"
| "jadd PInf y = PInf"
| "jadd x PInf = PInf"
| "jadd NInf y = NInf"
| "jadd x NInf = NInf"

text \<open>\<^verbatim>\<open>x / n\<close> for a count \<open>n\<close> (an array length).\<close>

fun jdiv_count :: "jsnum \<Rightarrow> nat \<Rightarrow> jsnum" where
  "jdiv_count NaN n = NaN"
| "jdiv_count PInf n = PInf"
| "jdiv_count NInf n = NInf"
| "jdiv_count (Fin a) n =
     (if n = 0 then (if a = 0 then NaN else if a > 0 then PInf else NInf)
      else number_of (a / of_nat n))"

text \<open>\<^verbatim>\<open>Math.min(...values)\<close> and \<^verbatim>\<open>Math.max(...values)\<close>.\<close>

fun jmin :: "jsnum \<Rightarrow> jsnum \<Rightarrow> jsnum" where
  "jmin NaN y = NaN"
| "jmin x NaN = NaN"
| "jmin NInf y = NInf"
| "jmin x NInf = NInf"
| "jmin PInf y = y"
| "jmin x PInf = x"
| "jmin (Fin a) (Fin b) = Fin (min a b)"

fun jmax :: "jsnum \<Rightarrow> jsnum \<Rightarrow> jsnum" where
  "jmax NaN y = NaN"
| "jmax x NaN = NaN"
| "jmax PInf y = PInf"
| "jmax x PInf = PInf"
| "jmax NInf y = y"
| "jmax x NInf = x"
| "jmax (Fin a) (Fin b) = Fin (max a b)"

definition Math_min :: "jsnum list \<Rightarrow> jsnum" where
  "Math_min xs = foldl jmin PInf xs"

definition Math_max :: "jsnum list \<Rightarrow> jsnum" where
  "Math_max xs = foldl jmax NInf xs"

text \<open>\<^verbatim>\<open>values.reduce((a, b) => a + b, 0)\<close>.\<close>

definition reduce_add :: "jsnum list \<Rightarrow> jsnum" where
  "reduce_add xs = foldl jadd (Fin 0) xs"

datatype aggregate = AggSum | AggAverage | AggCount | AggMin | AggMax

text \<open>
  \<^verbatim>\<open>SectionBuilder.addSummarySection\<close>, the value computed for one field:
  \<^verbatim>\<open>values = data.map(item => getNestedValue(item, field)).filter(v => v != null)\<close>, then
  the \<^verbatim>\<open>switch\<close> on the function. \<open>get\<close> reads the field of a record.
\<close>

definition summary_values :: "('r \<Rightarrow> jsnum option) \<Rightarrow> 'r list \<Rightarrow> jsnum list" where
  "summary_values get data = map the (filter (\<lambda>v. v \<noteq> None) (map get data))"

fun addSummarySection_value :: "aggregate \<Rightarrow> ('r \<Rightarrow> jsnum option) \<Rightarrow> 'r list \<Rightarrow> jsnum" where
  "addSummarySection_value AggSum get data = reduce_add (summary_values get data)"
| "addSummarySection_value AggAverage get data =
     jdiv_count (reduce_add (summary_values get data)) (length (summary_values get data))"
| "addSummarySection_value AggCount get data = Fin (of_nat (length (summary_values get data)))"
| "addSummarySection_value AggMin get data = Math_min (summary_values get data)"
| "addSummarySection_value AggMax get data = Math_max (summary_values get data)"

text \<open>
  \<^verbatim>\<open>Section.addSummaryRow\<close>, the value computed for a summarised field:
  \<^verbatim>\<open>values = data.map(...).filter(v => v != null && !isNaN(v))\<close>; the average is guarded
  by \<^verbatim>\<open>values.length ? ... : 0\<close>.
\<close>

definition summaryRow_values :: "('r \<Rightarrow> jsnum option) \<Rightarrow> 'r list \<Rightarrow> jsnum list" where
  "summaryRow_values get data =
     map the (filter (\<lambda>v. v \<noteq> None \<and> v \<noteq> Some NaN) (map get data))"

fun addSummaryRow_value :: "aggregate \<Rightarrow> ('r \<Rightarrow> jsnum option) \<Rightarrow> 'r list \<Rightarrow> jsnum" where
  "addSummaryRow_value AggSum get data = reduce_add (summaryRow_values get data)"
| "addSummaryRow_value AggAverage get data =
     (if length (summaryRow_values get data) \<noteq> 0
      then jdiv_count (reduce_add (summaryRow_values get data)) (length (summaryRow_values get data))
      else Fin 0)"
| "addSummaryRow_value AggCount get data = Fin (of_nat (length (summaryRow_values get data)))"
| "addSummaryRow_value AggMin get data = Math_min (summaryRow_values get data)"
| "addSummaryRow_value AggMax get data = Math_max (summaryRow_values get data)"

text \<open>
  \<^verbatim>\<open>SectionBuilder.addPivotSection\<close> computes the value of a pivot cell, of a row subtotal
  and of the grand total with the same \<^verbatim>\<open>switch\<close> over
  \<^verbatim>\<open>nums = items.map(item => item[v.field]).filter(n => !isNaN(n))\<close>. The filter converts
  with \<^verbatim>\<open>ToNumber\<close>, which takes \<^verbatim>\<open>undefined\<close> to NaN and \<^verbatim>\<open>null\<close> to 0, so it keeps
  \<^verbatim>\<open>null\<close>; the addition and \<^verbatim>\<open>Math.min\<close>/\<^verbatim>\<open>Math.max\<close> convert in the same way. The count
  is the length of \<^verbatim>\<open>items\<close>, not of \<^verbatim>\<open>nums\<close>.
\<close>

datatype field_value = FieldUndefined | FieldNull | FieldNum jsnum

fun ToNumber :: "field_value \<Rightarrow> jsnum" where
  "ToNumber FieldUndefined = NaN"
| "ToNumber FieldNull = Fin 0"
| "ToNumber (FieldNum x) = x"

definition pivot_nums :: "('r \<Rightarrow> field_value) \<Rightarrow> 'r list \<Rightarrow> field_value list" where
  "pivot_nums get items = filter (\<lambda>n. ToNumber n \<noteq> NaN) (map get items)"

fun pivot_value :: "aggregate \<Rightarrow> ('r \<Rightarrow> field_value) \<Rightarrow> 'r list \<Rightarrow> jsnum" where
  "pivot_value AggSum get items = reduce_add (map ToNumber (pivot_nums get items))"
| "pivot_value AggAverage get items =
     (if length (pivot_nums get items) \<noteq> 0
      then jdiv_count (reduce_add (map ToNumber (pivot_nums get items)))
             (length (pivot_nums get items))
      else Fin 0)"
| "pivot_value AggCount get items = Fin (of_nat (length items))"
| "pivot_value AggMin get items = Math_min (map ToNumber (pivot_nums get items))"
| "pivot_value AggMax get items = Math_max (map ToNumber (pivot_nums get items))"

section \<open>The writers\<close>

text \<open>
  An \<^verbatim>\<open>async\<close> function never throws to its caller: it returns a promise that is
  resolved with the result or rejected with the exception raised in its body. A
  \<^verbatim>\<open>Blob\<close> is its text and its media type.
\<close>

datatype 'a promise = Resolved 'a | Rejected js_error

record blob =
  blob_text :: string
  blob_type :: string

text \<open>\<^verbatim>\<open>xs.map(f)\<close> where \<open>f\<close> may throw: the first exception ends the traversal.\<close>

fun map_throwing :: "('a \<Rightarrow> js_error + 'b) \<Rightarrow> 'a list \<Rightarrow> js_error + 'b list" where
  "map_throwing f [] = Inr []"
| "map_throwing f (x # xs) =
     (case f x of
        Inl e \<Rightarrow> Inl e
      | Inr y \<Rightarrow> (case map_throwing f xs of Inl e \<Rightarrow> Inl e | Inr ys \<Rightarrow> Inr (y # ys)))"

text \<open>\<^verbatim>\<open>s.includes(sub)\<close> and \<^verbatim>\<open>s.endsWith(suffix)\<close>.\<close>

fun js_includes :: "string \<Rightarrow> string \<Rightarrow> bool" where
  "js_includes [] sub = (sub = [])"
| "js_includes (c # cs) sub = (take (length sub) (c # cs) = sub \<or> js_includes cs sub)"

definition endsWith :: "string \<Rightarrow> string \<Rightarrow> bool" where
  "endsWith s suffix =
     (length suffix \<le> length s \<and> drop (length s - length suffix) s = suffix)"

subsection \<open>The spreadsheet-package writer (writers/excel-writer.ts)\<close>

text \<open>
  \<^verbatim>\<open>columnToLetter(column)\<close> for a finite number \<^verbatim>\<open>column\<close>. Every operation of the loop
  is an operation on doubles: the two subtractions, the division and the addition round
  their exact result, and the remainder is exact. The loop ends for every finite number; the
  facts about rounding that show this come first.
\<close>

lemma pow2_pos: "0 < pow2 q"
  by (simp add: pow2_def)

lemma pow2_add: "pow2 (a + b) = pow2 a * pow2 b"
  by (simp add: pow2_def power_add [symmetric] nat_add_distrib field_simps)
     (auto simp: field_simps power_add [symmetric] nat_diff_distrib'
        intro!: arg_cong [where f = "\<lambda>n. (2::rat) ^ n"])

declare exponent_up.simps [simp del] exponent_down.simps [simp del]

lemma round_half_even_error: "\<bar>of_int (round_half_even y) - y\<bar> \<le> 1 / 2"
proof -
  have "of_int \<lfloor>y\<rfloor> \<le> y" "y < of_int \<lfloor>y\<rfloor> + 1" by linarith+
  then show ?thesis unfolding round_half_even_def Let_def by (auto simp: abs_le_iff)
qed

lemma round_half_even_nonneg: "0 \<le> y \<Longrightarrow> 0 \<le> round_half_even y"
proof -
  assume "0 \<le> y"
  then have "0 \<le> \<lfloor>y\<rfloor>" by simp
  then show ?thesis unfolding round_half_even_def Let_def by auto
qed

lemma round_half_even_le: "0 \<le> y \<Longrightarrow> of_int (round_half_even y) \<le> 2 * y"
proof -
  assume y: "0 \<le> y"
  show ?thesis
  proof (cases "y < 1 / 2")
    case True
    then have "\<lfloor>y\<rfloor> = 0" using y by (simp add: floor_eq_iff)
    then have "round_half_even y = 0" using True by (simp add: round_half_even_def)
    then show ?thesis using y by simp
  next
    case False
    then show ?thesis using round_half_even_error [of y] by linarith
  qed
qed

lemma exponent_down_ge: "f \<le> exponent_down x f"
proof (induction x f rule: exponent_down.induct)
  case (1 x f)
  then show ?case by (subst exponent_down.simps) (auto simp: Suc_leD)
qed

lemma exponent_down_le: "f \<le> 1022 \<Longrightarrow> exponent_down x f \<le> 1022"
proof (induction x f rule: exponent_down.induct)
  case (1 x f)
  then show ?case by (subst exponent_down.simps) auto
qed

lemma exponent_lower: "- 1022 \<le> exponent x"
  using exponent_down_le [of 1 x] by (simp add: exponent_def)


lemma pow2_mono: "a \<le> b \<Longrightarrow> pow2 a \<le> pow2 b"
proof -
  assume "a \<le> b"
  then have "pow2 b = pow2 a * pow2 (b - a)" "0 \<le> b - a" by (simp_all add: pow2_add [symmetric])
  moreover have "1 \<le> pow2 (b - a)" using \<open>0 \<le> b - a\<close> by (simp add: pow2_def)
  ultimately show ?thesis using pow2_pos [of a] by (simp add: mult_le_cancel_left1)
qed

lemma round_pos_nonneg: "0 \<le> x \<Longrightarrow> 0 \<le> round_pos x"
  using pow2_pos by (simp add: round_pos_def Let_def round_half_even_nonneg less_imp_le)

lemma round_pos_le: "0 \<le> x \<Longrightarrow> round_pos x \<le> 2 * x"
proof -
  assume x: "0 \<le> x"
  define p where "p = pow2 (exponent x - 52)"
  have p: "0 < p" by (simp add: p_def pow2_pos)
  have "of_int (round_half_even (x / p)) \<le> 2 * (x / p)"
    using x p by (intro round_half_even_le) simp
  then have "of_int (round_half_even (x / p)) \<le> (2 * x) / p" by simp
  then have "of_int (round_half_even (x / p)) * p \<le> 2 * x"
    using p by (simp only: pos_le_divide_eq)
  then show ?thesis by (simp add: round_pos_def p_def Let_def)
qed

lemma round_pos_zero: "round_pos 0 = 0"
  by (simp add: round_pos_def round_half_even_def)

lemma nearest_double_nonneg: "0 \<le> x \<Longrightarrow> 0 \<le> nearest_double x"
  by (simp add: nearest_double_def round_pos_nonneg)

lemma nearest_double_le: "0 \<le> x \<Longrightarrow> nearest_double x \<le> 2 * x"
  by (simp add: nearest_double_def round_pos_le)

lemma nearest_double_nonpos: "x \<le> 0 \<Longrightarrow> nearest_double x \<le> 0"
  using round_pos_nonneg [of "- x"] by (cases "x = 0") (simp_all add: nearest_double_def round_pos_zero)

lemma nearest_double_zero: "nearest_double 0 = 0"
  by (simp add: nearest_double_def round_pos_zero)

lemma round_pos_grid: "\<exists>N. round_pos x * pow2 1074 = of_int N"
proof -
  define q where "q = exponent x - 52"
  have "0 \<le> q + 1074" using exponent_lower [of x] by (simp add: q_def)
  then have a: "pow2 (q + 1074) = of_int (2 ^ nat (q + 1074))" by (simp add: pow2_def)
  have "round_pos x * pow2 1074 = of_int (round_half_even (x / pow2 q)) * (pow2 q * pow2 1074)"
    unfolding round_pos_def Let_def q_def by (simp only: mult.assoc)
  also have "\<dots> = of_int (round_half_even (x / pow2 q) * 2 ^ nat (q + 1074))"
    unfolding pow2_add [symmetric] a by simp
  finally show ?thesis ..
qed

lemma nearest_double_grid: "\<exists>N. nearest_double x * pow2 1074 = of_int N"
proof (cases "x < 0")
  case True
  obtain N where "round_pos (- x) * pow2 1074 = of_int N" using round_pos_grid by blast
  then have "nearest_double x * pow2 1074 = of_int (- N)" using True by (simp add: nearest_double_def)
  then show ?thesis ..
next
  case False
  then show ?thesis using round_pos_grid [of x] by (simp add: nearest_double_def)
qed

lemma round_pos_error_below_one:
  assumes "0 < y" "y < 1"
  shows "\<bar>round_pos y - y\<bar> \<le> pow2 (- 54)"
proof -
  define q where "q = exponent y - 52"
  define p where "p = pow2 q"
  have p: "0 < p" by (simp add: p_def pow2_pos)
  have "exponent y \<le> - 1" using assms exponent_down_ge [of 1 y] by (simp add: exponent_def)
  then have "q \<le> - 53" by (simp add: q_def)
  then have "p \<le> pow2 (- 53)" unfolding p_def by (rule pow2_mono)
  moreover have "pow2 (- 53) = 2 * pow2 (- 54)" by (simp add: pow2_def)
  ultimately have pb: "p / 2 \<le> pow2 (- 54)" by simp
  have "\<bar>of_int (round_half_even (y / p)) - y / p\<bar> * p \<le> 1 / 2 * p"
    using round_half_even_error [of "y / p"] p by (simp add: mult_le_cancel_right)
  moreover have "\<bar>of_int (round_half_even (y / p)) - y / p\<bar> * p
      = \<bar>of_int (round_half_even (y / p)) * p - y\<bar>"
    using p abs_mult_pos [of p "of_int (round_half_even (y / p)) - y / p"]
    by (simp add: left_diff_distrib)
  ultimately have "\<bar>round_pos y - y\<bar> \<le> p / 2"
    by (simp add: round_pos_def q_def p_def Let_def)
  then show ?thesis using pb by simp
qed

lemma nearest_double_near_one:
  assumes "\<bar>x - 1\<bar> \<le> pow2 (- 54)"
  shows "nearest_double x = 1"
proof -
  have v: "pow2 (- 54) = 1 / 2 ^ 54" by (simp add: pow2_def)
  have lo: "1 - 1 / 2 ^ 54 \<le> x" and hi: "x \<le> 1 + 1 / 2 ^ 54"
    using assms unfolding v by linarith+
  have x0: "0 < x" using lo by simp
  show ?thesis
  proof (cases "1 \<le> x")
    case True
    have "x < 2" using hi by simp
    then have e: "exponent x = 0" using True by (simp add: exponent_def exponent_up.simps)
    have "x * 2 ^ 52 - 2 ^ 52 \<le> 1 / 4" "2 ^ 52 \<le> x * 2 ^ 52" using hi True by simp_all
    then have "\<lfloor>x * 2 ^ 52\<rfloor> = 2 ^ 52" by (simp add: floor_eq_iff)
    then have "round_half_even (x * 2 ^ 52) = 2 ^ 52"
      using \<open>x * 2 ^ 52 - 2 ^ 52 \<le> 1 / 4\<close> by (simp add: round_half_even_def)
    then show ?thesis using x0 by (simp add: nearest_double_def round_pos_def e pow2_def)
  next
    case False
    have h: "1 / 2 \<le> x" using lo by simp
    then have "\<not> x * 2 < 1" by simp
    then have e: "exponent x = - 1" using False
      by (simp add: exponent_def exponent_down.simps)
    define z where "z = x * 2 ^ 53"
    have b: "2 ^ 53 - 1 / 2 \<le> z" "z < 2 ^ 53"
      using lo False by (simp_all add: z_def)
    then have f: "\<lfloor>z\<rfloor> = 2 ^ 53 - 1" by (simp add: floor_eq_iff)
    have "round_half_even z = 2 ^ 53"
      unfolding round_half_even_def Let_def f using b by simp
    then have "round_half_even (x * 2 ^ 53) = 2 ^ 53" by (simp only: z_def)
    then show ?thesis using x0 by (simp add: nearest_double_def round_pos_def e pow2_def)
  qed
qed

lemma remainder_nonneg: "0 \<le> n \<Longrightarrow> 0 \<le> remainder n 26"
proof -
  assume n: "0 \<le> n"
  have "26 * of_int \<lfloor>n / 26\<rfloor> \<le> n" using of_int_floor_le [of "n / 26"] by linarith
  moreover have "\<not> n / 26 < 0" using n by simp
  ultimately show ?thesis by (simp add: remainder_def trunc_def)
qed

lemma remainder_small: "- 26 < n \<Longrightarrow> n \<le> 0 \<Longrightarrow> remainder n 26 = n"
proof -
  assume a: "- 26 < n" "n \<le> 0"
  have "trunc (n / 26) = 0"
  proof (cases "n = 0")
    case True
    then show ?thesis by (simp add: trunc_def)
  next
    case False
    then have "n / 26 < 0" "- 1 < n / 26" using a by simp_all
    then have "\<lceil>n / 26\<rceil> = 0" by (simp add: ceiling_eq_iff)
    then show ?thesis using \<open>n / 26 < 0\<close> by (simp add: trunc_def)
  qed
  then show ?thesis by (simp add: remainder_def)
qed

text \<open>The value the loop body assigns to \<^verbatim>\<open>column\<close>: it is at most 0 or less than before.\<close>

definition next_column :: "rat \<Rightarrow> rat" where
  "next_column c = nearest_double (nearest_double (nearest_double (c - remainder (nearest_double (c - 1)) 26) - 1) / 26)"

lemma next_column_less:
  assumes c: "0 < c"
  shows "next_column c \<le> 0 \<or> next_column c < c"
proof (cases "1 \<le> c")
  case True
  define temp where "temp = remainder (nearest_double (c - 1)) 26"
  define B where "B = nearest_double (c - temp)"
  define C where "C = nearest_double (B - 1)"
  have n: "next_column c = nearest_double (C / 26)" by (simp add: next_column_def C_def B_def temp_def)
  have t: "0 \<le> temp" unfolding temp_def using True by (intro remainder_nonneg nearest_double_nonneg) simp
  show ?thesis
  proof (cases "0 < C")
    case False
    then have "nearest_double (C / 26) \<le> 0" by (intro nearest_double_nonpos) simp
    then show ?thesis by (simp add: n)
  next
    case C0: True
    have B1: "0 < B - 1"
    proof (rule ccontr)
      assume "\<not> 0 < B - 1"
      then have "nearest_double (B - 1) \<le> 0" by (intro nearest_double_nonpos) simp
      then show False using C0 by (simp add: C_def)
    qed
    have ct: "0 < c - temp"
    proof (rule ccontr)
      assume "\<not> 0 < c - temp"
      then have "nearest_double (c - temp) \<le> 0" by (intro nearest_double_nonpos) simp
      then show False using B1 by (simp add: B_def)
    qed
    have "B \<le> 2 * (c - temp)" unfolding B_def using ct by (intro nearest_double_le) simp
    then have "B \<le> 2 * c" using t by simp
    moreover have "C \<le> 2 * (B - 1)" unfolding C_def using B1 by (intro nearest_double_le) simp
    moreover have "nearest_double (C / 26) \<le> 2 * (C / 26)" using C0 by (intro nearest_double_le) simp
    ultimately have "nearest_double (C / 26) < c" using c by simp
    then show ?thesis by (simp add: n)
  qed
next
  case False
  define Y where "Y = round_pos (1 - c)"
  have A: "nearest_double (c - 1) = - Y" using False by (simp add: nearest_double_def Y_def)
  have v: "pow2 (- 54) \<le> 1" by (simp add: pow2_def)
  have e: "\<bar>Y - (1 - c)\<bar> \<le> pow2 (- 54)"
    unfolding Y_def using c False by (intro round_pos_error_below_one) simp_all
  have Y0: "0 \<le> Y" unfolding Y_def using False by (intro round_pos_nonneg) simp
  have "Y < 26" using e c v by linarith
  then have t: "remainder (nearest_double (c - 1)) 26 = - Y" unfolding A using Y0 by (intro remainder_small) simp_all
  have "\<bar>c + Y - 1\<bar> \<le> pow2 (- 54)" using e by (simp add: algebra_simps)
  then have "nearest_double (c + Y) = 1" by (rule nearest_double_near_one)
  then have "next_column c = 0" by (simp add: next_column_def t nearest_double_zero)
  then show ?thesis by simp
qed

lemma next_column_measure:
  assumes c: "0 < c"
  shows "nat \<lceil>next_column c * pow2 1074\<rceil> < nat \<lceil>c * pow2 1074\<rceil>"
proof -
  define M where "M = pow2 1074"
  have M: "0 < M" by (simp add: M_def pow2_pos)
  obtain N where N: "next_column c * M = of_int N"
    unfolding next_column_def M_def using nearest_double_grid by blast
  have "0 < c * M" using c M by simp
  then have pos: "0 < \<lceil>c * M\<rceil>" by simp
  have "nat \<lceil>next_column c * M\<rceil> < nat \<lceil>c * M\<rceil>"
  proof (cases "next_column c \<le> 0")
    case True
    then have "next_column c * M \<le> 0" using M by (simp add: mult_le_0_iff)
    then have "\<lceil>next_column c * M\<rceil> \<le> 0" by (simp add: ceiling_le_zero)
    then show ?thesis using pos by simp
  next
    case False
    then have "next_column c < c" using next_column_less [OF c] by simp
    then have "of_int N < c * M" unfolding N [symmetric] using M by simp
    then have "N < \<lceil>c * M\<rceil>" by (simp add: less_ceiling_iff)
    then show ?thesis using pos unfolding N by simp
  qed
  then show ?thesis by (simp only: M_def)
qed

function columnToLetter_loop :: "rat \<Rightarrow> string \<Rightarrow> string" where
  "columnToLetter_loop column letters =
     (if column > 0
      then (let temp = remainder (nearest_double (column - 1)) 26
            in columnToLetter_loop
                 (nearest_double (nearest_double (nearest_double (column - temp) - 1) / 26))
                 (fromCharCode (nearest_double (temp + 65)) # letters))
      else letters)"
  by pat_completeness auto
termination
proof (relation "measure (\<lambda>(column, letters). nat \<lceil>column * pow2 1074\<rceil>)")
  show "wf (measure (\<lambda>(column, letters). nat \<lceil>column * pow2 1074\<rceil>))" by simp
next
  fix column :: rat and letters :: string and temp
  assume "0 < column" "temp = remainder (nearest_double (column - 1)) 26"
  then show "((nearest_double (nearest_double (nearest_double (column - temp) - 1) / 26),
               fromCharCode (nearest_double (temp + 65)) # letters), column, letters)
             \<in> measure (\<lambda>(column, letters). nat \<lceil>column * pow2 1074\<rceil>)"
    using next_column_measure [of column] by (simp add: next_column_def)
qed

definition columnToLetter :: "rat \<Rightarrow> string" where
  "columnToLetter column =
     (let letters = columnToLetter_loop column [] in if letters = [] then ''A'' else letters)"

text \<open>
  \<^verbatim>\<open>getSheetRange\<close>, on the row lengths of \<^verbatim>\<open>data\<close>; an array length is an integer
  below \<open>2^32\<close>.
\<close>

definition getSheetRange :: "'a list list \<Rightarrow> string" where
  "getSheetRange data =
     (if length data = 0 then ''A1:A1''
      else (let lastRow = length data;
                lastCol = foldl max 0 (map length data)
            in ''A1:'' @ columnToLetter (of_nat lastCol) @ show_nat lastRow))"

datatype xl_cell = XFormula string | XValue jsval

definition string_truthy :: "string option \<Rightarrow> bool" where
  "string_truthy s = (case s of None \<Rightarrow> False | Some x \<Rightarrow> x \<noteq> [])"

text \<open>The entry pushed for one cell in \<^verbatim>\<open>generateSheetData\<close>.\<close>

definition sheet_cell :: "js_host \<Rightarrow> Cell \<Rightarrow> js_error + xl_cell" where
  "sheet_cell h c =
     (let cellData = Cell_toData c
      in if string_truthy (cd_formula cellData) then Inr (XFormula (the (cd_formula cellData)))
         else if cd_type cellData = Some ''date''
                 \<and> (case cd_value cellData of
                       JStr s \<Rightarrow> True | JNum n \<Rightarrow> True | JDate d \<Rightarrow> True | _ \<Rightarrow> False)
         then (case toExcelDate h (cd_value cellData) of
                 Inl e \<Rightarrow> Inl e
               | Inr v \<Rightarrow> Inr (XValue v))
         else Inr (XValue (cd_value cellData)))"

record xl_row =
  xr_hpt :: "jsnum option"
  xr_hidden :: bool
  xr_outlineLevel :: "jsnum option"
  xr_collapsed :: bool

record xl_col =
  xc_wch :: "jsnum option"
  xc_hidden :: bool
  xc_outlineLevel :: "jsnum option"
  xc_collapsed :: bool

text \<open>
  The object \<^verbatim>\<open>generateSheetData\<close> returns. \<^verbatim>\<open>'!merges'\<close> reads \<^verbatim>\<open>sheet['mergeCells']\<close>:
  the field of a \<^verbatim>\<open>Worksheet\<close> is \<^verbatim>\<open>mergedCells\<close>, and \<^verbatim>\<open>mergeCells\<close> is the method
  every worksheet inherits, so the entry always holds that function and never the merge
  regions.
\<close>

datatype merges_entry = Worksheet_mergeCells_method

record sheet_data =
  sd_ref :: string
  sd_rows :: "xl_row list"
  sd_cols :: "xl_col list"
  sd_merges :: merges_entry
  sd_freeze :: "FreezePane option"

definition generateSheetData :: "js_host \<Rightarrow> Worksheet \<Rightarrow> js_error + sheet_data" where
  "generateSheetData h sheet =
     (case map_throwing (\<lambda>row. map_throwing (sheet_cell h) (row_cells row)) (ws_rows sheet) of
        Inl e \<Rightarrow> Inl e
      | Inr data \<Rightarrow>
          Inr \<lparr>sd_ref = getSheetRange data,
               sd_rows = map (\<lambda>row. \<lparr>xr_hpt = row_height row, xr_hidden = row_hidden row,
                                     xr_outlineLevel = row_outlineLevel row,
                                     xr_collapsed = row_collapsed row\<rparr>) (ws_rows sheet),
               sd_cols = map (\<lambda>col. \<lparr>xc_wch = col_width col, xc_hidden = col_hidden col,
                                     xc_outlineLevel = col_outlineLevel col,
                                     xc_collapsed = col_collapsed col\<rparr>) (ws_columns sheet),
               sd_merges = Worksheet_mergeCells_method,
               sd_freeze = ws_freezePane sheet\<rparr>)"

text \<open>\<^verbatim>\<open>sheet.getName() || `Sheet${index + 1}`\<close>.\<close>

definition sheetName :: "Worksheet \<Rightarrow> nat \<Rightarrow> string" where
  "sheetName sheet index =
     (if ws_name sheet \<noteq> [] then ws_name sheet else ''Sheet'' @ show_nat (index + 1))"

record excel_data =
  Sheets :: "sheet_data js_object"
  SheetNames :: "string list"

fun generate_Sheets ::
  "js_host \<Rightarrow> (Worksheet \<times> nat) list \<Rightarrow> sheet_data js_object \<Rightarrow> js_error + sheet_data js_object"
where
  "generate_Sheets h [] acc = Inr acc"
| "generate_Sheets h ((sheet, index) # rest) acc =
     (case generateSheetData h sheet of
        Inl e \<Rightarrow> Inl e
      | Inr d \<Rightarrow> generate_Sheets h rest (obj_assign (sheetName sheet index) d acc))"

definition generateExcelData :: "js_host \<Rightarrow> Workbook \<Rightarrow> js_error + excel_data" where
  "generateExcelData h workbook =
     (let sheets = wb_sheets workbook;
          indexed = zip sheets [0 ..< length sheets]
      in case generate_Sheets h indexed [] of
           Inl e \<Rightarrow> Inl e
         | Inr acc \<Rightarrow>
             Inr \<lparr>Sheets = acc, SheetNames = map (\<lambda>(sheet, index). sheetName sheet index) indexed\<rparr>)"

definition sheet_element :: "string \<Rightarrow> nat \<Rightarrow> string" where
  "sheet_element name index =
     ''<sheet name='' @ [dquote] @ name @ [dquote]
     @ '' sheetId='' @ [dquote] @ show_nat (index + 1) @ [dquote]
     @ '' r:id='' @ [dquote] @ ''rId'' @ show_nat (index + 1) @ [dquote] @ ''/>''"

definition generateWorkbookXML :: "excel_data \<Rightarrow> string" where
  "generateWorkbookXML data =
     ''<workbook xmlns='' @ [dquote] @ ''http://schemas.openxmlformats.org/spreadsheetml/2006/main''
     @ [dquote] @ ''>'' @ ''<sheets>''
     @ concat (map (\<lambda>(name, index). sheet_element name index)
                 (zip (SheetNames data) [0 ..< length (SheetNames data)]))
     @ ''</sheets>'' @ ''</workbook>''"

definition createExcelFile :: "excel_data \<Rightarrow> string" where
  "createExcelFile data =
     ''<?xml version='' @ [dquote] @ ''1.0'' @ [dquote] @ '' encoding='' @ [dquote] @ ''UTF-8''
     @ [dquote] @ ''?>'' @ generateWorkbookXML data"

definition ExcelWriter_write :: "js_host \<Rightarrow> Workbook \<Rightarrow> blob promise" where
  "ExcelWriter_write h workbook =
     (case generateExcelData h workbook of
        Inl e \<Rightarrow> Rejected e
      | Inr data \<Rightarrow>
          Resolved \<lparr>blob_text = createExcelFile data,
                    blob_type = ''application/vnd.openxmlformats-officedocument.spreadsheetml.sheet''\<rparr>)"

subsection \<open>The tabular-text writer (writers/csv-writer.ts)\<close>

text \<open>\<^verbatim>\<open>value.replace(/"/g, '""')\<close>.\<close>

definition double_quotes :: "string \<Rightarrow> string" where
  "double_quotes s = concat (map (\<lambda>c. if c = dquote then [dquote, dquote] else [c]) s)"

text \<open>
  The last step for one cell in \<^verbatim>\<open>generateCSVData\<close>: the field written for the display
  string \<open>v\<close>.
\<close>

definition csv_field :: "string \<Rightarrow> string" where
  "csv_field v =
     (if js_includes v [comma] \<or> js_includes v [dquote] \<or> js_includes v [newline]
      then [dquote] @ double_quotes v @ [dquote]
      else v)"

text \<open>
  The display string of a cell: empty for \<^verbatim>\<open>null\<close> and \<^verbatim>\<open>undefined\<close>, the part of the ISO
  timestamp before \<^verbatim>\<open>T\<close> for a date-typed \<^verbatim>\<open>Date\<close> (\<^verbatim>\<open>toISOString\<close> throws a RangeError on
  an invalid date), and \<^verbatim>\<open>String(value)\<close> otherwise.
\<close>

definition csv_display :: "js_host \<Rightarrow> Cell \<Rightarrow> js_error + string" where
  "csv_display h c =
     (let cellData = Cell_toData c
      in if cd_value cellData \<noteq> JNull \<and> cd_value cellData \<noteq> JUndefined
         then (case cd_value cellData of
                 JDate d \<Rightarrow>
                   (if cd_type cellData = Some ''date''
                    then (case d of
                            None \<Rightarrow> Inl RangeError
                          | Some t \<Rightarrow> Inr (takeWhile (\<lambda>ch. ch \<noteq> CHR ''T'') (toISOString h t)))
                    else Inr (js_String h (cd_value cellData)))
               | _ \<Rightarrow> Inr (js_String h (cd_value cellData)))
         else Inr [])"

definition csv_cell :: "js_host \<Rightarrow> Cell \<Rightarrow> js_error + string" where
  "csv_cell h c = (case csv_display h c of Inl e \<Rightarrow> Inl e | Inr v \<Rightarrow> Inr (csv_field v))"

definition generateCSVData :: "js_host \<Rightarrow> Worksheet \<Rightarrow> js_error + string" where
  "generateCSVData h sheet =
     (case map_throwing
             (\<lambda>row. case map_throwing (csv_cell h) (row_cells row) of
                      Inl e \<Rightarrow> Inl e
                    | Inr rowData \<Rightarrow> Inr (join [comma] rowData))
             (ws_rows sheet) of
        Inl e \<Rightarrow> Inl e
      | Inr csvRows \<Rightarrow> Inr (join [newline] csvRows))"

text \<open>
  \<^verbatim>\<open>CSVWriter.write\<close>: \<^verbatim>\<open>sheets[0]\<close> is \<^verbatim>\<open>undefined\<close> for a workbook without sheets, and
  \<^verbatim>\<open>sheet.getRows()\<close> then throws a TypeError.
\<close>

definition CSVWriter_write :: "js_host \<Rightarrow> Workbook \<Rightarrow> blob promise" where
  "CSVWriter_write h workbook =
     (case wb_sheets workbook of
        [] \<Rightarrow> Rejected TypeError
      | sheet # _ \<Rightarrow>
          (case generateCSVData h sheet of
             Inl e \<Rightarrow> Rejected e
           | Inr csvData \<Rightarrow> Resolved \<lparr>blob_text = csvData, blob_type = ''text/csv;charset=utf-8;''\<rparr>))"


subsection \<open>The structured-record writer (writers/json-writer.ts)\<close>

text \<open>
  The header of one cell of the first row. The callback of the source reads
  \<^verbatim>\<open>headers.length\<close> for the placeholder name while \<^verbatim>\<open>const headers\<close> is still being
  initialised (the \<^verbatim>\<open>map\<close> call that computes it has not returned), which is a
  ReferenceError.
\<close>

definition header_of :: "js_host \<Rightarrow> Cell \<Rightarrow> js_error + string" where
  "header_of h c =
     (let v = cd_value (Cell_toData c)
      in if truthy v then Inr (js_String h v) else Inl ReferenceError)"

text \<open>The value stored for one cell of a data row.\<close>

definition json_value :: "js_host \<Rightarrow> Cell \<Rightarrow> js_error + jsval" where
  "json_value h c =
     (let cellData = Cell_toData c
      in case cd_value cellData of
           JDate d \<Rightarrow>
             (if cd_type cellData = Some ''date''
              then (case d of None \<Rightarrow> Inl RangeError | Some t \<Rightarrow> Inr (JStr (toISOString h t)))
              else Inr (cd_value cellData))
         | _ \<Rightarrow> Inr (cd_value cellData))"

text \<open>
  \<^verbatim>\<open>row.getCells().forEach((cell, index) => { if (index < headers.length) ... })\<close>: the
  cells are paired with the headers position by position, and each pair assigns
  \<^verbatim>\<open>rowData[headers[index]] = value\<close>.
\<close>

fun json_row ::
  "js_host \<Rightarrow> (Cell \<times> string) list \<Rightarrow> jsval js_object \<Rightarrow> js_error + jsval js_object"
where
  "json_row h [] rowData = Inr rowData"
| "json_row h ((cell, header) # rest) rowData =
     (case json_value h cell of
        Inl e \<Rightarrow> Inl e
      | Inr v \<Rightarrow> json_row h rest (obj_assign header v rowData))"

definition generateJSONData :: "js_host \<Rightarrow> Worksheet \<Rightarrow> js_error + jsval js_object list" where
  "generateJSONData h sheet =
     (case ws_rows sheet of
        [] \<Rightarrow> Inr []
      | first # others \<Rightarrow>
          (case map_throwing (header_of h) (row_cells first) of
             Inl e \<Rightarrow> Inl e
           | Inr headers \<Rightarrow>
               map_throwing (\<lambda>row. json_row h (zip (row_cells row) headers) []) others))"

definition JSONWriter_write :: "js_host \<Rightarrow> Workbook \<Rightarrow> blob promise" where
  "JSONWriter_write h workbook =
     (case wb_sheets workbook of
        [] \<Rightarrow> Rejected TypeError
      | sheet # _ \<Rightarrow>
          (case generateJSONData h sheet of
             Inl e \<Rightarrow> Rejected e
           | Inr jsonData \<Rightarrow>
               Resolved \<lparr>blob_text = JSON_stringify h (map Object_entries jsonData),
                         blob_type = ''application/json;charset=utf-8;''\<rparr>))"

subsection \<open>Dispatch (core/workbook.ts, builders/export-builder.ts)\<close>

text \<open>
  The two options the dispatch reads. An absent option is \<open>None\<close>; the TypeScript type of
  \<^verbatim>\<open>format\<close> allows \<^verbatim>\<open>'xlsx'\<close>, \<^verbatim>\<open>'csv'\<close> and \<^verbatim>\<open>'json'\<close>, a JavaScript caller can pass
  any string.
\<close>

record ExportOptions =
  eo_filename :: "string option"
  eo_format :: "string option"

text \<open>\<^verbatim>\<open>Workbook.export\<close>: \<^verbatim>\<open>const { format = 'xlsx' } = options\<close>, then the \<^verbatim>\<open>switch\<close>.\<close>

definition Workbook_export :: "js_host \<Rightarrow> Workbook \<Rightarrow> ExportOptions \<Rightarrow> blob promise" where
  "Workbook_export h workbook options =
     (let format = (case eo_format options of None \<Rightarrow> ''xlsx'' | Some f \<Rightarrow> f)
      in if format = ''csv'' then CSVWriter_write h workbook
         else if format = ''json'' then JSONWriter_write h workbook
         else ExcelWriter_write h workbook)"

text \<open>\<^verbatim>\<open>ExportBuilder.export\<close> forwards to the workbook.\<close>

definition ExportBuilder_export :: "js_host \<Rightarrow> Workbook \<Rightarrow> ExportOptions \<Rightarrow> blob promise" where
  "ExportBuilder_export h workbook options = Workbook_export h workbook options"

text \<open>
  \<^verbatim>\<open>ExportBuilder.download\<close> is not \<^verbatim>\<open>async\<close>: it either throws to its caller, or calls
  the chosen writer and hands the promise and the file name to the browser.
\<close>

datatype download_result = Thrown js_error | Started "blob promise" string

definition or_default :: "string option \<Rightarrow> string \<Rightarrow> string" where
  "or_default s d = (case s of None \<Rightarrow> d | Some x \<Rightarrow> (if x = [] then d else x))"

definition ExportBuilder_download :: "js_host \<Rightarrow> Workbook \<Rightarrow> ExportOptions \<Rightarrow> download_result" where
  "ExportBuilder_download h workbook options =
     (let filename = or_default (eo_filename options) ''export.xlsx'';
          format = or_default (eo_format options)
                     (if endsWith filename ''.csv'' then ''csv''
                      else if endsWith filename ''.json'' then ''json''
                      else ''xlsx'')
      in if format = ''xlsx'' then Started (ExcelWriter_write h workbook) filename
         else if format = ''csv'' then Started (CSVWriter_write h workbook) filename
         else if format = ''json'' then Started (JSONWriter_write h workbook) filename
         else Thrown (Error ''Unsupported format''))"

section \<open>The section builder (builders/section-builder.ts)\<close>

subsection \<open>Grouping\<close>

text \<open>
  One step of the \<^verbatim>\<open>reduce\<close> in \<^verbatim>\<open>groupData\<close>, \<^verbatim>\<open>groupMultiLevel\<close> and \<^verbatim>\<open>groupByDate\<close>:
  \<^verbatim>\<open>if (!groups[key]) groups[key] = []; groups[key].push(item);\<close>. When \<open>key\<close> is not an own
  property but names a property inherited from \<^verbatim>\<open>Object.prototype\<close>, \<^verbatim>\<open>groups[key]\<close> is
  that inherited value, which is truthy and has no \<^verbatim>\<open>push\<close>: the call throws a TypeError.
\<close>

definition group_step :: "string \<Rightarrow> 'r \<Rightarrow> 'r list js_object \<Rightarrow> js_error + 'r list js_object" where
  "group_step key item groups =
     (case map_of groups key of
        Some items \<Rightarrow> Inr (obj_update key (items @ [item]) groups)
      | None \<Rightarrow>
          (if key \<in> set object_prototype_keys then Inl TypeError
           else Inr (obj_update key [item] (obj_assign key [] groups))))"

fun group_reduce ::
  "('r \<Rightarrow> string) \<Rightarrow> 'r list \<Rightarrow> 'r list js_object \<Rightarrow> js_error + 'r list js_object"
where
  "group_reduce key_of [] groups = Inr groups"
| "group_reduce key_of (item # rest) groups =
     (case group_step (key_of item) item groups of
        Inl e \<Rightarrow> Inl e
      | Inr groups' \<Rightarrow> group_reduce key_of rest groups')"

text \<open>
  \<^verbatim>\<open>groupData(data, groupBy)\<close>. \<open>key_of\<close> is the key of a record: \<^verbatim>\<open>groupBy(item)\<close> for a
  function, \<^verbatim>\<open>String(item[groupBy])\<close> for a field name.
\<close>

definition groupData :: "('r \<Rightarrow> string) \<Rightarrow> 'r list \<Rightarrow> js_error + 'r list js_object" where
  "groupData key_of data = group_reduce key_of data []"

subsection \<open>Dates and time buckets\<close>

text \<open>
  Day numbers count days from 1970-01-01 (UTC), as \<^verbatim>\<open>Day(t)\<close> of ECMAScript does for a time
  value \<open>t\<close>; all dates here are at midnight, so a \<^verbatim>\<open>Date\<close> is its day number. The
  functions follow the definitions of ECMAScript: \<^verbatim>\<open>DayFromYear\<close>, \<^verbatim>\<open>YearFromTime\<close> (the
  largest year starting at or before the day, found here by a search down and then up from
  an estimate), \<^verbatim>\<open>MakeDay\<close>, \<^verbatim>\<open>WeekDay\<close> (0 is Sunday) and \<^verbatim>\<open>Date.UTC\<close>, which reads a
  year from 0 to 99 as 1900 plus that year.
\<close>

definition DayFromYear :: "int \<Rightarrow> int" where
  "DayFromYear y =
     365 * (y - 1970) + (y - 1969) div 4 - (y - 1901) div 100 + (y - 1601) div 400"

definition InLeapYear :: "int \<Rightarrow> bool" where
  "InLeapYear y = (y mod 4 = 0 \<and> (y mod 100 \<noteq> 0 \<or> y mod 400 = 0))"

text \<open>A year has at least 364 days in this count, which is what the two searches need to end.\<close>

lemma DayFromYear_step: "DayFromYear y + 364 \<le> DayFromYear (y + 1)"
proof -
  define a b c a' b' c' where "a = (y - 1969) div 4" and "b = (y - 1901) div 100"
    and "c = (y - 1601) div 400" and "a' = (y - 1968) div 4" and "b' = (y - 1900) div 100"
    and "c' = (y - 1600) div 400"
  have "a \<le> a'" unfolding a_def a'_def by (rule zdiv_mono1) simp_all
  moreover have "c \<le> c'" unfolding c_def c'_def by (rule zdiv_mono1) simp_all
  moreover have "(y - 1900) div 100 \<le> (y - 1901 + 100) div 100" by (rule zdiv_mono1) simp_all
  then have "b' \<le> b + 1" unfolding b_def b'_def by simp
  moreover have "DayFromYear y = 365 * (y - 1970) + a - b + c"
    by (simp add: DayFromYear_def a_def b_def c_def)
  moreover have "DayFromYear (y + 1) = 365 * (y - 1969) + a' - b' + c'"
    by (simp add: DayFromYear_def a'_def b'_def c'_def)
  ultimately show ?thesis by simp
qed

function year_down :: "int \<Rightarrow> int \<Rightarrow> int" where
  "year_down y day = (if day < DayFromYear y then year_down (y - 1) day else y)"
  by pat_completeness auto
termination
proof (relation "measure (\<lambda>(y, day). nat (DayFromYear y - day))")
  show "wf (measure (\<lambda>(y, day). nat (DayFromYear y - day)))" by simp
next
  fix y day :: int
  assume "day < DayFromYear y"
  then show "((y - 1, day), (y, day)) \<in> measure (\<lambda>(y, day). nat (DayFromYear y - day))"
    using DayFromYear_step [of "y - 1"] by simp
qed

function year_up :: "int \<Rightarrow> int \<Rightarrow> int" where
  "year_up y day = (if DayFromYear (y + 1) \<le> day then year_up (y + 1) day else y)"
  by pat_completeness auto
termination
proof (relation "measure (\<lambda>(y, day). nat (day - DayFromYear y))")
  show "wf (measure (\<lambda>(y, day). nat (day - DayFromYear y)))" by simp
next
  fix y day :: int
  assume "DayFromYear (y + 1) \<le> day"
  then show "((y + 1, day), (y, day)) \<in> measure (\<lambda>(y, day). nat (day - DayFromYear y))"
    using DayFromYear_step [of y] by simp
qed

definition YearFromDay :: "int \<Rightarrow> int" where
  "YearFromDay day = year_up (year_down (1970 + day div 365) day) day"

definition month_offset :: "int \<Rightarrow> int" where
  "month_offset m = [0, 31, 59, 90, 120, 151, 181, 212, 243, 273, 304, 334] ! nat m"

definition MakeDay :: "int \<Rightarrow> int \<Rightarrow> int \<Rightarrow> int" where
  "MakeDay year month date =
     (let ym = year + month div 12; mn = month mod 12
      in DayFromYear ym + month_offset mn + (if InLeapYear ym \<and> mn \<ge> 2 then 1 else 0)
         + date - 1)"

definition Date_UTC :: "int \<Rightarrow> int \<Rightarrow> int \<Rightarrow> int" where
  "Date_UTC year month date =
     MakeDay (if 0 \<le> year \<and> year \<le> 99 then 1900 + year else year) month date"

definition WeekDay :: "int \<Rightarrow> int" where
  "WeekDay day = (day + 4) mod 7"

text \<open>\<^verbatim>\<open>Math.ceil(a / 7)\<close> on an integer \<open>a\<close>.\<close>

definition ceil7 :: "int \<Rightarrow> int" where
  "ceil7 a = - ((- a) div 7)"

text \<open>
  \<^verbatim>\<open>getWeekNumber(date)\<close>, on the local calendar fields of \<^verbatim>\<open>date\<close>: \<^verbatim>\<open>getFullYear()\<close>,
  \<^verbatim>\<open>getMonth()\<close> (0 to 11) and \<^verbatim>\<open>getDate()\<close>. \<^verbatim>\<open>d.setUTCDate(d.getUTCDate() + 4 - dayNum)\<close>
  moves \<open>d\<close> by \<open>4 - dayNum\<close> days.
\<close>

definition getWeekNumber :: "int \<Rightarrow> int \<Rightarrow> int \<Rightarrow> int" where
  "getWeekNumber fullYear month date =
     (let d = Date_UTC fullYear month date;
          dayNum = (if WeekDay d = 0 then 7 else WeekDay d);
          d' = d + 4 - dayNum;
          yearStart = Date_UTC (YearFromDay d') 0 1
      in ceil7 (d' - yearStart + 1))"

text \<open>
  What \<^verbatim>\<open>groupByDate\<close> reads from the \<^verbatim>\<open>Date\<close> it builds for a record: the local calendar
  fields and the ISO timestamp. (A record whose date field does not parse gives an invalid
  date, which is outside this model.)
\<close>

record date_view =
  dv_fullYear :: int
  dv_month :: int
  dv_date :: int
  dv_iso :: string

datatype period = Day | Week | Month | Quarter | Year

text \<open>\<^verbatim>\<open>String(n).padStart(2, '0')\<close>.\<close>

definition padStart2 :: "string \<Rightarrow> string" where
  "padStart2 s = replicate (2 - length s) (CHR ''0'') @ s"

text \<open>
  The bucket key of one record: \<^verbatim>\<open>format || ...\<close> in each case of the \<^verbatim>\<open>switch\<close>, so a
  non-empty \<^verbatim>\<open>format\<close> replaces the key of every record.
\<close>

definition period_key :: "period \<Rightarrow> string option \<Rightarrow> date_view \<Rightarrow> string" where
  "period_key p format dv =
     (if string_truthy format then the format
      else (case p of
              Day \<Rightarrow> takeWhile (\<lambda>ch. ch \<noteq> CHR ''T'') (dv_iso dv)
            | Week \<Rightarrow>
                show_int (dv_fullYear dv) @ ''-W''
                @ show_int (getWeekNumber (dv_fullYear dv) (dv_month dv) (dv_date dv))
            | Month \<Rightarrow> show_int (dv_fullYear dv) @ ''-'' @ padStart2 (show_int (dv_month dv + 1))
            | Quarter \<Rightarrow> show_int (dv_fullYear dv) @ ''-Q'' @ show_int (dv_month dv div 3 + 1)
            | Year \<Rightarrow> show_int (dv_fullYear dv)))"

text \<open>\<^verbatim>\<open>groupByDate\<close>; \<open>date_of\<close> gives the date of a record's date field.\<close>

definition groupByDate ::
  "('r \<Rightarrow> date_view) \<Rightarrow> period \<Rightarrow> string option \<Rightarrow> 'r list \<Rightarrow> js_error + 'r list js_object"
where
  "groupByDate date_of p format data =
     group_reduce (\<lambda>item. period_key p format (date_of item)) data []"

text \<open>
  \<^verbatim>\<open>keys.sort()\<close> on strings: the default order compares the strings code unit by code
  unit, a proper prefix first. \<^verbatim>\<open>keys.indexOf(key)\<close> is the first index of the key, or -1.
\<close>

fun code_unit_less :: "string \<Rightarrow> string \<Rightarrow> bool" where
  "code_unit_less [] [] = False"
| "code_unit_less [] (y # ys) = True"
| "code_unit_less (x # xs) [] = False"
| "code_unit_less (x # xs) (y # ys) =
     ((of_char x :: nat) < of_char y \<or> (x = y \<and> code_unit_less xs ys))"

fun insert_key :: "string \<Rightarrow> string list \<Rightarrow> string list" where
  "insert_key k [] = [k]"
| "insert_key k (x # xs) = (if code_unit_less x k then x # insert_key k xs else k # x # xs)"

definition Array_sort :: "string list \<Rightarrow> string list" where
  "Array_sort keys = foldr insert_key keys []"

fun indexOf :: "string list \<Rightarrow> string \<Rightarrow> int" where
  "indexOf [] k = - 1"
| "indexOf (x # xs) k = (if x = k then 0 else (let i = indexOf xs k in if i < 0 then - 1 else i + 1))"

text \<open>
  \<^verbatim>\<open>getPreviousPeriod(currentKey, groups)\<close>, which \<^verbatim>\<open>addTimelineSection\<close> calls for the
  trend of a bucket: the group of the key that comes just before \<^verbatim>\<open>currentKey\<close> in the
  sorted keys, or \<^verbatim>\<open>null\<close> (\<open>None\<close>).
\<close>

definition getPreviousPeriod :: "string \<Rightarrow> 'r list js_object \<Rightarrow> 'r list option" where
  "getPreviousPeriod currentKey groups =
     (let keys = Array_sort (map fst (Object_entries groups));
          currentIndex = indexOf keys currentKey
      in if currentIndex > 0 then map_of groups (keys ! nat (currentIndex - 1)) else None)"

subsection \<open>Sections\<close>

text \<open>
  The part of \<^verbatim>\<open>SectionConfig\<close> that \<^verbatim>\<open>Section.build\<close> reads for the layout. An absent
  \<^verbatim>\<open>subSections\<close> is the empty list (the code treats the two alike), an absent
  \<^verbatim>\<open>collapsed\<close> is \<open>False\<close>.
\<close>

record SummaryConfig =
  sm_fields :: "string list"
  sm_function :: aggregate
  sm_label :: "string option"

datatype 'r SectionConfig =
  SectionConfig
    (sc_title: "string option")
    (sc_level: int)
    (sc_collapsed: bool)
    (sc_data: "'r list")
    (sc_fields: "string list option")
    (sc_summary: "SummaryConfig option")
    (sc_subSections: "'r SectionConfig list")

text \<open>
  The rows \<^verbatim>\<open>Section.build\<close> appends to the worksheet (\<^verbatim>\<open>worksheet.createRow()\<close>), each
  with its outline level and with what it was created from: the title row (with the collapse
  indicator cell when the section has content: \<open>Some True\<close> for the collapsed mark), the row
  of field labels, one row per record, and the summary row with its label. Cell values and
  styles are not part of this trace.
\<close>

datatype 'r section_row =
    TitleRow int string "bool option"
  | FieldHeaderRow int "string list"
  | DataRow int 'r
  | SummaryRow int string

text \<open>
  \<^verbatim>\<open>Section.build()\<close>: the rows appended and the returned \<^verbatim>\<open>currentRow\<close>, from the
  section's \<^verbatim>\<open>startRow\<close>. The counter is incremented once for every row created.
\<close>

fun Section_build :: "'r SectionConfig \<Rightarrow> nat \<Rightarrow> 'r section_row list \<times> nat"
  and Section_build_subs :: "'r SectionConfig list \<Rightarrow> nat \<Rightarrow> 'r section_row list \<times> nat"
where
  "Section_build (SectionConfig title level collapsed data fieldList summary subSections) startRow =
     (let header =
            (if string_truthy title
             then [TitleRow level (the title)
                     (if data \<noteq> [] \<or> subSections \<noteq> [] then Some collapsed else None)]
             else []);
          body =
            (if \<not> collapsed \<and> length data > 0
             then (case fieldList of
                     None \<Rightarrow> []
                   | Some fs \<Rightarrow> (if length fs > 0 then [FieldHeaderRow (level + 1) fs] else []))
                  @ map (DataRow (level + 1)) data
                  @ (case summary of
                       None \<Rightarrow> []
                     | Some sm \<Rightarrow> [SummaryRow (level + 2) (or_default (sm_label sm) ''Total'')])
             else []);
          currentRow = startRow + length header + length body;
          (subRows, lastRow) =
            (if \<not> collapsed then Section_build_subs subSections currentRow else ([], currentRow))
      in (header @ body @ subRows, lastRow))"
| "Section_build_subs [] currentRow = ([], currentRow)"
| "Section_build_subs (subConfig # rest) currentRow =
     (let (rows1, row1) = Section_build subConfig currentRow;
          (rows2, row2) = Section_build_subs rest row1
      in (rows1 @ rows2, row2))"

text \<open>The builder: the rows of its worksheet and \<^verbatim>\<open>currentRow\<close>.\<close>

record 'r SectionBuilder =
  sbd_rows :: "'r section_row list"
  sbd_currentRow :: nat

definition addSection :: "'r SectionConfig \<Rightarrow> 'r SectionBuilder \<Rightarrow> 'r SectionBuilder" where
  "addSection config b =
     (let (rows, r) = Section_build config (sbd_currentRow b)
      in b\<lparr>sbd_rows := sbd_rows b @ rows, sbd_currentRow := r\<rparr>)"

text \<open>
  The options of \<^verbatim>\<open>createFromData\<close>. \<open>gb_key\<close> is the key of a record under \<^verbatim>\<open>groupBy\<close>
  and \<open>gb_text\<close> is \<^verbatim>\<open>String(groupBy)\<close>, which the group titles start with; a missing or
  empty \<^verbatim>\<open>groupBy\<close> is \<open>None\<close>. \<open>keys_of\<close> below is \<^verbatim>\<open>Object.keys\<close> on a record.
\<close>

record 'r GroupBy =
  gb_text :: string
  gb_key :: "'r \<Rightarrow> string"

record 'r CreateOptions =
  co_title :: string
  co_groupBy :: "'r GroupBy option"
  co_fields :: "string list option"
  co_level :: "int option"
  co_collapsed :: "bool option"
  co_summary :: "(string list \<times> aggregate list) option"

definition summary_of :: "(string list \<times> aggregate list) option \<Rightarrow> string \<Rightarrow> SummaryConfig option" where
  "summary_of summary label =
     (case summary of
        None \<Rightarrow> None
      | Some (fieldList, functions) \<Rightarrow>
          Some \<lparr>sm_fields = fieldList,
                sm_function = (case functions of [] \<Rightarrow> AggCount | f # _ \<Rightarrow> f),
                sm_label = Some label\<rparr>)"

text \<open>The \<^verbatim>\<open>SectionConfig\<close> that \<^verbatim>\<open>createFromData\<close> passes to \<^verbatim>\<open>addSection\<close>.\<close>

definition createFromData_config ::
  "('r \<Rightarrow> string list) \<Rightarrow> 'r list \<Rightarrow> 'r CreateOptions \<Rightarrow> js_error + 'r SectionConfig"
where
  "createFromData_config keys_of data options =
     (let title = co_title options;
          fieldList = (case co_fields options of
                      Some fs \<Rightarrow> fs
                    | None \<Rightarrow> (case data of [] \<Rightarrow> [] | item # _ \<Rightarrow> keys_of item));
          level = (case co_level options of None \<Rightarrow> 0 | Some l \<Rightarrow> l);
          collapsed = (case co_collapsed options of None \<Rightarrow> False | Some c \<Rightarrow> c)
      in case co_groupBy options of
           None \<Rightarrow>
             Inr (SectionConfig (Some title) level collapsed data (Some fieldList)
                    (summary_of (co_summary options) ''Total'') [])
         | Some groupBy \<Rightarrow>
             (case groupData (gb_key groupBy) data of
                Inl e \<Rightarrow> Inl e
              | Inr groups \<Rightarrow>
                  Inr (SectionConfig (Some title) level collapsed [] None None
                         (map (\<lambda>(key, items).
                                 SectionConfig (Some (gb_text groupBy @ '': '' @ key)) (level + 1) True
                                   items (Some fieldList)
                                   (summary_of (co_summary options) (''Total for '' @ key)) [])
                            (Object_entries groups)))))"

definition createFromData ::
  "('r \<Rightarrow> string list) \<Rightarrow> 'r list \<Rightarrow> 'r CreateOptions \<Rightarrow> 'r SectionBuilder
     \<Rightarrow> js_error + 'r SectionBuilder"
where
  "createFromData keys_of data options b =
     (case createFromData_config keys_of data options of
        Inl e \<Rightarrow> Inl e
      | Inr config \<Rightarrow> Inr (addSection config b))"

text \<open>The records of the data rows among emitted rows, in order.\<close>

fun data_records :: "'r section_row list \<Rightarrow> 'r list" where
  "data_records [] = []"
| "data_records (DataRow l r # rows) = r # data_records rows"
| "data_records (_ # rows) = data_records rows"

text \<open>The titles of the title rows at a given outline level, in order.\<close>

fun titles_at :: "int \<Rightarrow> 'r section_row list \<Rightarrow> string list" where
  "titles_at l [] = []"
| "titles_at l (TitleRow l' t i # rows) = (if l' = l then t # titles_at l rows else titles_at l rows)"
| "titles_at l (_ # rows) = titles_at l rows"

section \<open>Notions the properties are stated with\<close>

text \<open>
  The definitions of this section are not taken from the sources: they are the notions the
  specification uses to say what the code should do.
\<close>

subsection \<open>Column letters\<close>



subsection \<open>Standard CSV quoting\<close>






subsection \<open>Sequences of cell operations\<close>

text \<open>
  The operations a caller can apply to a cell, and a cell after a sequence of them (first
  operation first). \<open>FromData d\<close> replaces the cell by \<^verbatim>\<open>Cell.fromData(d)\<close>. The invariant of
  the data model: a formula text is present only when the type is \<^verbatim>\<open>'formula'\<close>.
\<close>

datatype cell_op =
    SetValue jsval
  | SetStyle "CellStyle option"
  | SetFormula string
  | SetType cell_type
  | FromData CellData

fun cell_apply :: "cell_op \<Rightarrow> Cell \<Rightarrow> Cell" where
  "cell_apply (SetValue v) c = setValue v c"
| "cell_apply (SetStyle s) c = setStyle s c"
| "cell_apply (SetFormula f) c = setFormula f c"
| "cell_apply (SetType t) c = setType t c"
| "cell_apply (FromData d) c = Cell_fromData d"

definition cell_run :: "cell_op list \<Rightarrow> Cell \<Rightarrow> Cell" where
  "cell_run ops c = fold cell_apply ops c"

definition formula_only_when_formula_type :: "Cell \<Rightarrow> bool" where
  "formula_only_when_formula_type c = (cell_formula c = None \<or> cell_type c = TFormula)"

text \<open>The operations that can store a formula text.\<close>

fun sets_formula :: "cell_op \<Rightarrow> bool" where
  "sets_formula (SetFormula f) = True"
| "sets_formula (FromData d) = True"
| "sets_formula _ = False"

subsection \<open>Outline levels that a round trip keeps\<close>

text \<open>
  An outline level that is a number other than NaN; a worksheet and a workbook all of whose
  rows and columns have such a level.
\<close>

definition level_kept :: "jsnum option \<Rightarrow> bool" where
  "level_kept l = (l \<noteq> None \<and> l \<noteq> Some NaN)"

definition Worksheet_levels_kept :: "Worksheet \<Rightarrow> bool" where
  "Worksheet_levels_kept s =
     (list_all (\<lambda>r. level_kept (row_outlineLevel r)) (ws_rows s)
      \<and> list_all (\<lambda>c. level_kept (col_outlineLevel c)) (ws_columns s))"

definition Workbook_levels_kept :: "Workbook \<Rightarrow> bool" where
  "Workbook_levels_kept W = list_all Worksheet_levels_kept (wb_sheets W)"

subsection \<open>Example inputs\<close>

text \<open>
  A host for the examples: no example below holds a date or a number other than a small
  integer, so the results do not depend on what the host functions return. \<open>plain_Worksheet name rows\<close> is the sheet an
  \<^verbatim>\<open>ExportBuilder\<close> has after \<^verbatim>\<open>addDataRows(rows)\<close> on arrays of values: one row per
  array, one cell per value (\<^verbatim>\<open>row.createCell(value)\<close>).
\<close>

definition example_host :: js_host where
  "example_host =
     \<lparr>dateToString = (\<lambda>d. ''Invalid Date''), numberToString = (\<lambda>x. ''0.5''),
      toISOString = (\<lambda>t. ''1970-01-01T00:00:00.000Z''),
      toExcelDate = (\<lambda>v. Inr v), JSON_stringify = (\<lambda>records. ''[]'')\<rparr>"

definition plain_Row :: "jsval list \<Rightarrow> Row" where
  "plain_Row vs = \<lparr>row_cells = map (\<lambda>v. Cell_new v None) vs, row_height = None,
                    row_hidden = False, row_outlineLevel = Some (Fin 0), row_collapsed = False\<rparr>"

definition plain_Worksheet :: "string \<Rightarrow> jsval list list \<Rightarrow> Worksheet" where
  "plain_Worksheet name rows =
     \<lparr>ws_name = name, ws_rows = map plain_Row rows, ws_columns = [], ws_mergedCells = [],
      ws_freezePane = None, ws_printOptions = None\<rparr>"

subsection \<open>Partitions by key\<close>

text \<open>
  The distinct elements of a list in the order of their first occurrence, and the stable
  partition of records by key that the specification describes: one group per distinct key,
  in first-seen key order, each group holding the records with that key in their original
  order.
\<close>

definition first_seen :: "'a list \<Rightarrow> 'a list" where
  "first_seen xs = rev (remdups (rev xs))"

definition partition_by :: "('r \<Rightarrow> string) \<Rightarrow> 'r list \<Rightarrow> 'r list js_object" where
  "partition_by key_of data =
     map (\<lambda>k. (k, filter (\<lambda>x. key_of x = k) data)) (first_seen (map key_of data))"

text \<open>
  The rows of a grouped section, written out: the title row of the main section (when the
  title is not empty; its indicator cell is present when there is a group), then, unless the
  main section is collapsed, one title row per group in \<^verbatim>\<open>Object.entries\<close> order of the
  partition, each at the next outline level and marked collapsed. There is no data row.
\<close>

definition group_rows ::
  "'r GroupBy \<Rightarrow> int \<Rightarrow> bool \<Rightarrow> string \<Rightarrow> 'r list \<Rightarrow> 'r section_row list"
where
  "group_rows g level collapsed title data =
     (let entries = Object_entries (partition_by (gb_key g) data)
      in (if title \<noteq> []
          then [TitleRow level title (if entries \<noteq> [] then Some collapsed else None)] else [])
         @ (if collapsed then []
            else map (\<lambda>(key, items). TitleRow (level + 1) (gb_text g @ '': '' @ key) (Some True))
                   entries))"

subsection \<open>Example records\<close>

text \<open>
  Records with a \<^verbatim>\<open>kind\<close> (a string) and an \<^verbatim>\<open>amount\<close>, grouped by \<^verbatim>\<open>kind\<close> into a section
  titled \<^verbatim>\<open>Report\<close> with the default options.
\<close>

definition record_kind :: "string \<times> int \<Rightarrow> string" where
  "record_kind r = fst r"

definition record_keys :: "string \<times> int \<Rightarrow> string list" where
  "record_keys r = [''kind'', ''amount'']"

definition by_kind :: "(string \<times> int) GroupBy" where
  "by_kind = \<lparr>gb_text = ''kind'', gb_key = record_kind\<rparr>"

definition report_options :: "(string \<times> int) CreateOptions" where
  "report_options =
     \<lparr>co_title = ''Report'', co_groupBy = Some by_kind, co_fields = None, co_level = None,
      co_collapsed = None, co_summary = None\<rparr>"

subsection \<open>Builder calls and well-formed builder states\<close>

text \<open>
  The four methods that write into the border object the builder holds, and the states in
  which every address from \<open>sb_next\<close> on is unused and the border reference of the builder's
  style points below it.
\<close>

fun sets_border_side :: "sb_call \<Rightarrow> bool" where
  "sets_border_side (CallBorderTop s c) = True"
| "sets_border_side (CallBorderRight s c) = True"
| "sets_border_side (CallBorderBottom s c) = True"
| "sets_border_side (CallBorderLeft s c) = True"
| "sets_border_side _ = False"

definition sb_wf :: "sb_state \<Rightarrow> bool" where
  "sb_wf st = ((\<forall>a. sb_next st \<le> a \<longrightarrow> sb_heap st a = None)
     \<and> (case cs_border (sb_style st) of None \<Rightarrow> True | Some a \<Rightarrow> a < sb_next st))"

chapter \<open>Properties\<close>

section \<open>Integers that are their own double\<close>

text \<open>
  An integer below \<open>2^53\<close> in magnitude is a double: an operation whose exact result is such
  an integer returns it.
\<close>

lemma round_half_even_int: "round_half_even (of_int n) = n"
  by (simp add: round_half_even_def)

lemma exponent_up_lt: "x < 2 ^ k \<Longrightarrow> e < k \<Longrightarrow> exponent_up x e < k"
proof (induction x e rule: exponent_up.induct)
  case (1 x e)
  show ?case
  proof (cases "e < 1023 \<and> 2 * 2 ^ e \<le> x")
    case True
    then have "(2::rat) ^ (e + 1) < 2 ^ k" using 1(2) by simp
    then have "e + 1 < k" by (rule power_less_imp_less_exp [rotated]) simp
    then show ?thesis using 1 True by (subst exponent_up.simps) simp
  next
    case False
    then show ?thesis using 1(3) by (subst exponent_up.simps) auto
  qed
qed

lemma nearest_double_of_int:
  assumes "0 \<le> n" "n < 2 ^ 53"
  shows "nearest_double (of_int n) = of_int n"
proof -
  define x :: rat where "x = of_int n"
  define q where "q = exponent x - 52"
  have "x < 2 ^ 53" using assms by (simp add: x_def) 
  then have "exponent_up x 0 < 53" by (rule exponent_up_lt) simp
  then have "exponent x \<le> 52" using exponent_down_ge [of 1 x] by (simp add: exponent_def)
  then have q: "q \<le> 0" by (simp add: q_def)
  then have "x / pow2 q = of_int (n * 2 ^ nat (- q))"
    by (cases "q = 0") (simp_all add: pow2_def x_def)
  then have "round_half_even (x / pow2 q) = n * 2 ^ nat (- q)"
    by (simp only: round_half_even_int)
  then have "round_pos x = of_int (n * 2 ^ nat (- q)) * pow2 q"
    unfolding round_pos_def Let_def q_def [symmetric] by simp
  also have "\<dots> = x" using q by (cases "q = 0") (simp_all add: pow2_def x_def)
  finally have "round_pos x = x" .
  then show ?thesis using assms by (simp add: nearest_double_def x_def)
qed

lemma nearest_double_of_nat: "n < 2 ^ 53 \<Longrightarrow> nearest_double (of_nat n) = of_nat n"
proof -
  assume "n < 2 ^ 53"
  then have "int n < 2 ^ 53" by (metis of_nat_less_iff of_nat_numeral of_nat_power)
  then show ?thesis using nearest_double_of_int [of "int n"] by simp
qed

lemma number_of_nat: "n < 2 ^ 53 \<Longrightarrow> number_of (of_nat n) = Fin (of_nat n)"
proof -
  assume n: "n < 2 ^ 53"
  have "(of_nat n :: rat) < of_nat (2 ^ 53)" using n by (simp only: of_nat_less_iff)
  then have "(of_nat n :: rat) < 2 ^ 1024" by simp
  moreover have "- (2 ^ 1024) < (of_nat n :: rat)"
    by (rule less_le_trans [of _ 0]) simp_all
  ultimately show ?thesis using n by (simp add: number_of_def nearest_double_of_nat)
qed

section \<open>Column letters (claim C6)\<close>

declare columnToLetter_loop.simps [simp del]


































section \<open>Quoting in the tabular-text writer (claim C5)\<close>





section \<open>Round trip of the document model (claim C1)\<close>

lemma find_type_name: "find_type (type_name t) = Some t"
  by (cases t) (simp_all add: find_type_def validTypes_def)

lemma type_name_nonempty: "type_name t \<noteq> []"
  by (cases t) simp_all

lemma Cell_round_trip: "Cell_fromData (Cell_toData c) = c"
  by (simp add: Cell_fromData_def Cell_toData_def new_Cell_def Let_def find_type_name
      type_name_nonempty)

lemma or_zero_fixed: "(Some (or_zero l) = l) = level_kept l"
  by (cases l) (auto simp: or_zero_def level_kept_def)

lemma level_kept_or_zero: "level_kept (Some (or_zero l))"
  by (cases l) (auto simp: or_zero_def level_kept_def)

lemma map_fixed: "(map f xs = xs) = list_all (\<lambda>x. f x = x) xs"
  by (induction xs) auto

lemma Row_round_trip_value:
  "Row_fromData (Row_toData r) = r\<lparr>row_outlineLevel := Some (or_zero (row_outlineLevel r))\<rparr>"
  by (simp add: Row_fromData_def Row_toData_def or_false_def Cell_round_trip comp_def)

lemma Row_round_trip: "(Row_fromData (Row_toData r) = r) = level_kept (row_outlineLevel r)"
  unfolding Row_round_trip_value or_zero_fixed [symmetric] by (cases r) auto

lemma Column_round_trip_value:
  "Column_fromData (Column_toData c) = c\<lparr>col_outlineLevel := Some (or_zero (col_outlineLevel c))\<rparr>"
  by (simp add: Column_fromData_def Column_toData_def or_false_def)

lemma Column_round_trip:
  "(Column_fromData (Column_toData c) = c) = level_kept (col_outlineLevel c)"
  unfolding Column_round_trip_value or_zero_fixed [symmetric] by (cases c) auto

lemma Worksheet_round_trip_value:
  "Worksheet_fromData (Worksheet_toData s)
     = s\<lparr>ws_rows := map (\<lambda>r. Row_fromData (Row_toData r)) (ws_rows s),
          ws_columns := map (\<lambda>c. Column_fromData (Column_toData c)) (ws_columns s)\<rparr>"
  by (simp add: Worksheet_fromData_def Worksheet_toData_def or_empty_def comp_def)

lemma Worksheet_round_trip:
  "(Worksheet_fromData (Worksheet_toData s) = s) = Worksheet_levels_kept s"
proof -
  have "(Worksheet_fromData (Worksheet_toData s) = s)
      = (map (\<lambda>r. Row_fromData (Row_toData r)) (ws_rows s) = ws_rows s
         \<and> map (\<lambda>c. Column_fromData (Column_toData c)) (ws_columns s) = ws_columns s)"
    unfolding Worksheet_round_trip_value by (cases s) auto
  then show ?thesis
    by (simp add: map_fixed Row_round_trip Column_round_trip Worksheet_levels_kept_def)
qed

lemma Worksheet_round_trip_kept: "Worksheet_levels_kept (Worksheet_fromData (Worksheet_toData s))"
  by (simp add: Worksheet_round_trip_value Worksheet_levels_kept_def list_all_iff
      Row_round_trip_value Column_round_trip_value level_kept_or_zero)

lemma Workbook_fromData_toData:
  "Workbook_fromData (Workbook_toData W)
     = W\<lparr>wb_sheets := map (\<lambda>s. Worksheet_fromData (Worksheet_toData s)) (wb_sheets W)\<rparr>"
  by (simp add: Workbook_fromData_def Workbook_toData_def or_empty_def comp_def)

lemma Workbook_fixed_iff:
  "(Workbook_fromData (Workbook_toData W) = W) = Workbook_levels_kept W"
proof -
  have "(Workbook_fromData (Workbook_toData W) = W)
      = (map (\<lambda>s. Worksheet_fromData (Worksheet_toData s)) (wb_sheets W) = wb_sheets W)"
    unfolding Workbook_fromData_toData by (cases W) auto
  then show ?thesis
    by (simp add: map_fixed Worksheet_round_trip Workbook_levels_kept_def)
qed

text \<open>
  A row whose outline level was set from a missing level, as \<^verbatim>\<open>ExportBuilder.addSection\<close>
  does for a section configuration without \<^verbatim>\<open>level\<close>, or from NaN, as it does for the data
  rows of that section: the round trip replaces the level by 0, so the row, and a workbook
  that holds it, do not come back as they were.
\<close>

theorem outline_level_round_trip_counterexample:
  "Row_fromData (Row_toData (Row_setOutlineLevel None False new_Row))
     \<noteq> Row_setOutlineLevel None False new_Row
   \<and> row_outlineLevel (Row_fromData (Row_toData (Row_setOutlineLevel None False new_Row)))
     = Some (Fin 0)
   \<and> Row_fromData (Row_toData (Row_setOutlineLevel (Some NaN) False new_Row))
     \<noteq> Row_setOutlineLevel (Some NaN) False new_Row
   \<and> Workbook_fromData (Workbook_toData
        \<lparr>wb_sheets = [\<lparr>ws_name = ''Parts'',
                        ws_rows = [Row_setOutlineLevel None False new_Row],
                        ws_columns = [], ws_mergedCells = [], ws_freezePane = None,
                        ws_printOptions = None\<rparr>],
         wb_properties = []\<rparr>)
     \<noteq> \<lparr>wb_sheets = [\<lparr>ws_name = ''Parts'',
                        ws_rows = [Row_setOutlineLevel None False new_Row],
                        ws_columns = [], ws_mergedCells = [], ws_freezePane = None,
                        ws_printOptions = None\<rparr>],
         wb_properties = []\<rparr>"
  by (simp add: Workbook_fromData_toData Worksheet_round_trip_value Row_round_trip_value
      Row_setOutlineLevel_def new_Row_def or_zero_def)

text \<open>
  Claim C1, as the code has it. \<^verbatim>\<open>Workbook.fromData(W.toData())\<close> is \<open>W\<close> exactly when every
  row and every column of every sheet of \<open>W\<close> has an outline level that is a number other
  than NaN: then the result has the same sheets in order, each with the same name, rows,
  columns, merge regions, freeze pane and print options, every row and column with the same
  height or width, hidden flag, outline level and collapsed flag, every cell with the same
  value, type, formula and style, and the same properties. The same holds for a worksheet,
  a row and a column on their own, and a cell always comes back as it was. A round trip
  leaves only such outline levels (a missing level and NaN become 0), so a second round trip
  changes nothing.
\<close>

theorem Workbook_round_trip:
  "(Workbook_fromData (Workbook_toData W) = W) = Workbook_levels_kept W
   \<and> (Worksheet_fromData (Worksheet_toData s) = s) = Worksheet_levels_kept s
   \<and> (Row_fromData (Row_toData r) = r) = level_kept (row_outlineLevel r)
   \<and> (Column_fromData (Column_toData col) = col) = level_kept (col_outlineLevel col)
   \<and> Cell_fromData (Cell_toData c) = c
   \<and> Workbook_levels_kept (Workbook_fromData (Workbook_toData W))
   \<and> Workbook_fromData (Workbook_toData (Workbook_fromData (Workbook_toData W)))
       = Workbook_fromData (Workbook_toData W)"
proof -
  have b: "Workbook_levels_kept (Workbook_fromData (Workbook_toData W))"
    by (simp add: Workbook_fromData_toData Workbook_levels_kept_def list_all_iff
        Worksheet_round_trip_kept)
  have c: "Workbook_fromData (Workbook_toData (Workbook_fromData (Workbook_toData W)))
       = Workbook_fromData (Workbook_toData W)"
    using b by (simp only: Workbook_fixed_iff)
  show ?thesis
    using b c by (simp only: Workbook_fixed_iff Worksheet_round_trip Row_round_trip
        Column_round_trip Cell_round_trip simp_thms)
qed

theorem Workbook_round_trip_witness:
  "Workbook_levels_kept
     \<lparr>wb_sheets = [\<lparr>ws_name = ''Parts'',
                     ws_rows = [Row_setOutlineLevel (Some (Fin 1)) False new_Row],
                     ws_columns = [new_Column None], ws_mergedCells = [], ws_freezePane = None,
                     ws_printOptions = None\<rparr>],
      wb_properties = []\<rparr>
   \<and> Workbook_fromData (Workbook_toData
        \<lparr>wb_sheets = [\<lparr>ws_name = ''Parts'',
                        ws_rows = [Row_setOutlineLevel (Some (Fin 1)) False new_Row],
                        ws_columns = [new_Column None], ws_mergedCells = [],
                        ws_freezePane = None, ws_printOptions = None\<rparr>],
         wb_properties = []\<rparr>)
     = \<lparr>wb_sheets = [\<lparr>ws_name = ''Parts'',
                        ws_rows = [Row_setOutlineLevel (Some (Fin 1)) False new_Row],
                        ws_columns = [new_Column None], ws_mergedCells = [],
                        ws_freezePane = None, ws_printOptions = None\<rparr>],
         wb_properties = []\<rparr>"
proof -
  let ?W = "\<lparr>wb_sheets = [\<lparr>ws_name = ''Parts'',
                        ws_rows = [Row_setOutlineLevel (Some (Fin 1)) False new_Row],
                        ws_columns = [new_Column None], ws_mergedCells = [],
                        ws_freezePane = None, ws_printOptions = None\<rparr>],
         wb_properties = []\<rparr>"
  have k: "Workbook_levels_kept ?W"
    by (simp add: Workbook_levels_kept_def Worksheet_levels_kept_def level_kept_def
        Row_setOutlineLevel_def new_Row_def new_Column_def)
  from k Workbook_round_trip [of ?W] have "Workbook_fromData (Workbook_toData ?W) = ?W"
    by blast
  with k show ?thesis by blast
qed

section \<open>Formula text and cell type (claim C10)\<close>

text \<open>
  \<^verbatim>\<open>setValue\<close> after \<^verbatim>\<open>setFormula\<close> leaves a cell of type \<^verbatim>\<open>'number'\<close> that still
  carries the formula text.
\<close>

theorem setValue_keeps_formula_counterexample:
  "\<not> formula_only_when_formula_type (cell_run [SetFormula ''A1+B1'', SetValue (JNum (Fin 5))] new_Cell)"
  by (simp add: formula_only_when_formula_type_def cell_run_def setFormula_def setValue_def
      inferType_def new_Cell_def)

lemma inferType_formula: "cell_formula (inferType c) = cell_formula c"
  by (simp add: inferType_def split: jsval.splits)

lemma inferType_type: "cell_type (inferType c) \<noteq> TFormula"
  by (simp add: inferType_def split: jsval.splits)

lemma cell_run_no_formula:
  "cell_formula c = None \<Longrightarrow> list_all (\<lambda>op. \<not> sets_formula op) ops \<Longrightarrow>
   cell_formula (cell_run ops c) = None"
proof (induction ops arbitrary: c)
  case Nil
  then show ?case by (simp add: cell_run_def)
next
  case (Cons op ops)
  then have "cell_formula (cell_apply op c) = None"
    by (cases op) (simp_all add: setValue_def setStyle_def setType_def inferType_formula)
  with Cons show ?case by (simp add: cell_run_def)
qed

lemma cell_run_keeps_formula:
  "cell_formula c \<noteq> None \<Longrightarrow> list_all (\<lambda>op. \<not> sets_formula op) ops \<Longrightarrow>
   cell_formula (cell_run ops c) = cell_formula c"
proof (induction ops arbitrary: c)
  case Nil
  then show ?case by (simp add: cell_run_def)
next
  case (Cons op ops)
  then have "cell_formula (cell_apply op c) = cell_formula c"
    by (cases op) (simp_all add: setValue_def setStyle_def setType_def inferType_formula)
  with Cons show ?case by (simp add: cell_run_def)
qed

text \<open>
  Claim C10, as the code has it. No cell operation removes a formula text. \<^verbatim>\<open>setFormula\<close>
  stores the text and sets the type to \<^verbatim>\<open>'formula'\<close>, so the invariant holds right after it.
  \<^verbatim>\<open>setValue\<close> keeps the formula text and infers a type that is never \<^verbatim>\<open>'formula'\<close>, so
  after it the invariant holds exactly when the cell had no formula text. \<^verbatim>\<open>setType\<close>
  changes the type only, and \<^verbatim>\<open>fromData\<close> takes the formula text of the data as it is. For
  a sequence of \<^verbatim>\<open>setValue\<close>, \<^verbatim>\<open>setStyle\<close> and \<^verbatim>\<open>setType\<close> calls: on a new cell there
  is no formula text at the end (so the invariant holds), and on a cell that \<^verbatim>\<open>setFormula\<close> was just
  applied to the formula text is still there at the end.
\<close>

theorem cell_formula_retained:
  "formula_only_when_formula_type (setFormula f c)
   \<and> cell_formula (setFormula f c) = Some f
   \<and> cell_formula (setValue v c) = cell_formula c
   \<and> cell_type (setValue v c) \<noteq> TFormula
   \<and> (formula_only_when_formula_type (setValue v c) \<longleftrightarrow> cell_formula c = None)
   \<and> cell_formula (setType t c) = cell_formula c \<and> cell_type (setType t c) = t
   \<and> cell_formula (Cell_fromData d) = cd_formula d
   \<and> (list_all (\<lambda>op. \<not> sets_formula op) ops \<longrightarrow>
        formula_only_when_formula_type (cell_run ops new_Cell)
        \<and> cell_formula (cell_run ops new_Cell) = None
        \<and> cell_formula (cell_run ops (setFormula f c)) = Some f)"
proof -
  have "list_all (\<lambda>op. \<not> sets_formula op) ops \<Longrightarrow> cell_formula (cell_run ops new_Cell) = None"
    using cell_run_no_formula [of new_Cell ops] by (simp add: new_Cell_def)
  moreover
  have "cell_formula (setFormula f c) \<noteq> None" by (simp add: setFormula_def)
  then have "list_all (\<lambda>op. \<not> sets_formula op) ops \<Longrightarrow>
      cell_formula (cell_run ops (setFormula f c)) = Some f"
    using cell_run_keeps_formula [of "setFormula f c" ops] by (simp add: setFormula_def)
  moreover have "list_all (\<lambda>op. \<not> sets_formula op) ops \<Longrightarrow>
      formula_only_when_formula_type (cell_run ops new_Cell)"
    using cell_run_no_formula [of new_Cell ops]
    by (simp add: formula_only_when_formula_type_def new_Cell_def)
  moreover have "cell_formula (Cell_fromData d) = cd_formula d"
    by (simp add: Cell_fromData_def Let_def new_Cell_def inferType_formula)
  ultimately show ?thesis
    by (simp add: formula_only_when_formula_type_def setFormula_def setValue_def setType_def
        inferType_formula inferType_type)
qed

theorem cell_formula_retained_witness:
  "list_all (\<lambda>op. \<not> sets_formula op) [SetValue (JNum (Fin 5)), SetType TString]
   \<and> formula_only_when_formula_type (cell_run [SetValue (JNum (Fin 5)), SetType TString] new_Cell)
   \<and> cell_formula (cell_run [SetValue (JNum (Fin 5)), SetType TString] new_Cell) = None
   \<and> cell_formula (cell_run [SetValue (JNum (Fin 5)), SetType TString] (setFormula ''A1+B1'' new_Cell))
       = Some ''A1+B1''
   \<and> cell_type (setValue (JNum (Fin 5)) (setFormula ''A1+B1'' new_Cell)) \<noteq> TFormula"
proof -
  have a: "list_all (\<lambda>op. \<not> sets_formula op) [SetValue (JNum (Fin 5)), SetType TString]" by simp
  have b: "formula_only_when_formula_type (cell_run [SetValue (JNum (Fin 5)), SetType TString] new_Cell)
     \<and> cell_formula (cell_run [SetValue (JNum (Fin 5)), SetType TString] new_Cell) = None
     \<and> cell_formula (cell_run [SetValue (JNum (Fin 5)), SetType TString] (setFormula ''A1+B1'' new_Cell))
         = Some ''A1+B1''"
    using a cell_formula_retained [of "''A1+B1''" new_Cell _ _ _
        "[SetValue (JNum (Fin 5)), SetType TString]"]
    by blast
  have c: "cell_type (setValue (JNum (Fin 5)) (setFormula ''A1+B1'' new_Cell)) \<noteq> TFormula"
    using cell_formula_retained [of _ "setFormula ''A1+B1'' new_Cell" "JNum (Fin 5)"] by blast
  show ?thesis using a b c by blast
qed

section \<open>Evaluating decimal numerals\<close>

declare show_nat.simps [simp del]

lemma show_nat_small: "n < 10 \<Longrightarrow> show_nat n = [digit_char n]"
  by (subst show_nat.simps) simp

lemma show_nat_large:
  "10 \<le> n \<Longrightarrow> show_nat n = show_nat (n div 10) @ [digit_char (n mod 10)]"
  by (subst show_nat.simps) simp

lemma digit_char_values:
  "digit_char 0 = CHR ''0''" "digit_char 1 = CHR ''1''" "digit_char 2 = CHR ''2''"
  "digit_char 3 = CHR ''3''" "digit_char 4 = CHR ''4''" "digit_char 5 = CHR ''5''"
  "digit_char 6 = CHR ''6''" "digit_char 7 = CHR ''7''" "digit_char 8 = CHR ''8''"
  "digit_char 9 = CHR ''9''" "digit_char (Suc 0) = CHR ''1''"
  by code_simp+

lemmas show_nat_eval = show_nat_small show_nat_large digit_char_values

section \<open>Aggregation (claim C3)\<close>

text \<open>
  The count skips records whose field is \<^verbatim>\<open>null\<close>, in both summaries, and the average of
  \<^verbatim>\<open>Section.addSummaryRow\<close> over no records is 0, not NaN.
\<close>

theorem count_skips_null_counterexample:
  "addSummarySection_value AggCount id [None, Some (Fin 1)] \<noteq> Fin (of_nat (length [None, Some (Fin 1)]))
   \<and> addSummaryRow_value AggCount id [None, Some (Fin 1)] \<noteq> Fin (of_nat (length [None, Some (Fin 1)]))
   \<and> addSummaryRow_value AggAverage id [] \<noteq> NaN"
  by (simp add: summary_values_def summaryRow_values_def)

lemma foldl_jmin_Fin: "foldl jmin (Fin a) (map Fin xs) = Fin (fold min xs a)"
  by (induction xs arbitrary: a) (simp_all add: min.commute)

lemma foldl_jmax_Fin: "foldl jmax (Fin a) (map Fin xs) = Fin (fold max xs a)"
  by (induction xs arbitrary: a) (simp_all add: max.commute)

lemma Math_min_Fin: "xs \<noteq> [] \<Longrightarrow> Math_min (map Fin xs) = Fin (Min (set xs))"
proof (cases xs)
  case Nil
  assume "xs \<noteq> []"
  with Nil show ?thesis by simp
next
  case (Cons a list)
  then show ?thesis
    using Min.set_eq_fold [of a list] by (simp add: Math_min_def foldl_jmin_Fin)
qed

lemma Math_max_Fin: "xs \<noteq> [] \<Longrightarrow> Math_max (map Fin xs) = Fin (Max (set xs))"
proof (cases xs)
  case Nil
  assume "xs \<noteq> []"
  with Nil show ?thesis by simp
next
  case (Cons a list)
  then show ?thesis
    using Max.set_eq_fold [of a list] by (simp add: Math_max_def foldl_jmax_Fin)
qed

lemma length_summary_values:
  "length (summary_values get data) = length (filter (\<lambda>r. get r \<noteq> None) data)"
  by (simp add: summary_values_def filter_map comp_def)

lemma length_summaryRow_values:
  "length (summaryRow_values get data)
     = length (filter (\<lambda>r. get r \<noteq> None \<and> get r \<noteq> Some NaN) data)"
  by (simp add: summaryRow_values_def filter_map comp_def)

lemma summary_values_all_null:
  "list_all (\<lambda>r. get r = None) data \<Longrightarrow> summary_values get data = []"
  by (induction data) (simp_all add: summary_values_def)

lemma summaryRow_values_all_null:
  "list_all (\<lambda>r. get r = None) data \<Longrightarrow> summaryRow_values get data = []"
  by (induction data) (simp_all add: summaryRow_values_def)

lemma summaryRow_values_all_null_or_NaN:
  "list_all (\<lambda>r. get r = None \<or> get r = Some NaN) data \<Longrightarrow> summaryRow_values get data = []"
  by (induction data) (auto simp: summaryRow_values_def)

lemma summary_values_Fin:
  "list_all (\<lambda>r. get r = Some (Fin (f r))) data \<Longrightarrow> summary_values get data = map Fin (map f data)"
  by (induction data) (simp_all add: summary_values_def)

lemma summaryRow_values_Fin:
  "list_all (\<lambda>r. get r = Some (Fin (f r))) data \<Longrightarrow> summaryRow_values get data = map Fin (map f data)"
  by (induction data) (simp_all add: summaryRow_values_def)

lemma number_of_small: "number_of 0 = Fin 0" "number_of 2 = Fin 2" "number_of 4 = Fin 4"
  using number_of_nat [of 0] number_of_nat [of 2] number_of_nat [of 4] by simp_all

text \<open>
  The pivot aggregation on the fields \<^verbatim>\<open>null\<close>, 4 and \<^verbatim>\<open>undefined\<close>: \<^verbatim>\<open>null\<close> passes the
  filter and counts as 0, \<^verbatim>\<open>undefined\<close> is dropped, and the count is 3.
\<close>

lemma pivot_value_example:
  "pivot_value AggSum id [FieldNull, FieldNum (Fin 4), FieldUndefined] = Fin 4
   \<and> pivot_value AggAverage id [FieldNull, FieldNum (Fin 4), FieldUndefined] = Fin 2
   \<and> pivot_value AggMin id [FieldNull, FieldNum (Fin 4), FieldUndefined] = Fin 0
   \<and> pivot_value AggMax id [FieldNull, FieldNum (Fin 4), FieldUndefined] = Fin 4
   \<and> pivot_value AggCount id [FieldNull, FieldNum (Fin 4), FieldUndefined] = Fin 3"
  by (simp add: pivot_nums_def reduce_add_def Math_min_def Math_max_def number_of_small)

text \<open>
  Claim C3, as the code has it, for \<^verbatim>\<open>SectionBuilder.addSummarySection\<close> and
  \<^verbatim>\<open>Section.addSummaryRow\<close>. The sum over no records is 0. The average over no records is
  NaN in \<^verbatim>\<open>addSummarySection\<close> and 0 in \<^verbatim>\<open>addSummaryRow\<close> (which guards the division).
  The count is the number of records whose field is not \<^verbatim>\<open>null\<close> or \<^verbatim>\<open>undefined\<close> (and, in
  \<^verbatim>\<open>addSummaryRow\<close>, not NaN): it depends on the nullity of the field. The minimum and
  maximum of the values 3, 7, 2 are 2 and 7; over records that all carry finite values they
  are the least and the greatest value; and when every record's field is null (for
  \<^verbatim>\<open>addSummaryRow\<close>: null or NaN), the sum is 0, the minimum is \<open>Infinity\<close>, the maximum is
  \<open>-Infinity\<close>, and the average is NaN (\<^verbatim>\<open>addSummarySection\<close>) or 0 (\<^verbatim>\<open>addSummaryRow\<close>). In the pivot aggregation of
  \<^verbatim>\<open>SectionBuilder.addPivotSection\<close> the count is the number of records, whatever their
  fields hold, and the average over no records is 0.
\<close>

theorem aggregate_results:
  "addSummarySection_value AggSum get [] = Fin 0 \<and> addSummaryRow_value AggSum get [] = Fin 0
   \<and> addSummarySection_value AggAverage get [] = NaN \<and> addSummaryRow_value AggAverage get [] = Fin 0
   \<and> addSummarySection_value AggCount get data
        = Fin (of_nat (length (filter (\<lambda>r. get r \<noteq> None) data)))
   \<and> addSummaryRow_value AggCount get data
        = Fin (of_nat (length (filter (\<lambda>r. get r \<noteq> None \<and> get r \<noteq> Some NaN) data)))
   \<and> addSummarySection_value AggMin (\<lambda>x. Some (Fin x)) [3, 7, 2] = Fin 2
   \<and> addSummarySection_value AggMax (\<lambda>x. Some (Fin x)) [3, 7, 2] = Fin 7
   \<and> addSummaryRow_value AggMin (\<lambda>x. Some (Fin x)) [3, 7, 2] = Fin 2
   \<and> addSummaryRow_value AggMax (\<lambda>x. Some (Fin x)) [3, 7, 2] = Fin 7
   \<and> (data \<noteq> [] \<and> list_all (\<lambda>r. get r = Some (Fin (f r))) data \<longrightarrow>
        addSummarySection_value AggMin get data = Fin (Min (f ` set data))
        \<and> addSummarySection_value AggMax get data = Fin (Max (f ` set data))
        \<and> addSummaryRow_value AggMin get data = Fin (Min (f ` set data))
        \<and> addSummaryRow_value AggMax get data = Fin (Max (f ` set data)))
   \<and> (list_all (\<lambda>r. get r = None) data \<longrightarrow>
        addSummarySection_value AggSum get data = Fin 0
        \<and> addSummarySection_value AggAverage get data = NaN
        \<and> addSummarySection_value AggMin get data = PInf
        \<and> addSummarySection_value AggMax get data = NInf
        \<and> addSummaryRow_value AggSum get data = Fin 0
        \<and> addSummaryRow_value AggAverage get data = Fin 0
        \<and> addSummaryRow_value AggMin get data = PInf
        \<and> addSummaryRow_value AggMax get data = NInf)
   \<and> (list_all (\<lambda>r. get r = None \<or> get r = Some NaN) data \<longrightarrow>
        addSummaryRow_value AggSum get data = Fin 0
        \<and> addSummaryRow_value AggAverage get data = Fin 0
        \<and> addSummaryRow_value AggMin get data = PInf
        \<and> addSummaryRow_value AggMax get data = NInf)
   \<and> pivot_value AggCount field data = Fin (of_nat (length data))
   \<and> pivot_value AggAverage field [] = Fin 0"
proof -
  have nan: "list_all (\<lambda>r. get r = None \<or> get r = Some NaN) data \<longrightarrow>
        addSummaryRow_value AggSum get data = Fin 0
        \<and> addSummaryRow_value AggAverage get data = Fin 0
        \<and> addSummaryRow_value AggMin get data = PInf
        \<and> addSummaryRow_value AggMax get data = NInf"
    by (simp add: summaryRow_values_all_null_or_NaN reduce_add_def Math_min_def Math_max_def)
  have fin: "data \<noteq> [] \<and> list_all (\<lambda>r. get r = Some (Fin (f r))) data \<longrightarrow>
        addSummarySection_value AggMin get data = Fin (Min (f ` set data))
        \<and> addSummarySection_value AggMax get data = Fin (Max (f ` set data))
        \<and> addSummaryRow_value AggMin get data = Fin (Min (f ` set data))
        \<and> addSummaryRow_value AggMax get data = Fin (Max (f ` set data))"
  proof
    assume a: "data \<noteq> [] \<and> list_all (\<lambda>r. get r = Some (Fin (f r))) data"
    then have ne: "map f data \<noteq> []" by simp
    have s: "set (map f data) = f ` set data" by simp
    show "addSummarySection_value AggMin get data = Fin (Min (f ` set data))
        \<and> addSummarySection_value AggMax get data = Fin (Max (f ` set data))
        \<and> addSummaryRow_value AggMin get data = Fin (Min (f ` set data))
        \<and> addSummaryRow_value AggMax get data = Fin (Max (f ` set data))"
      using Math_min_Fin [OF ne] Math_max_Fin [OF ne]
      unfolding s addSummarySection_value.simps addSummaryRow_value.simps
        summary_values_Fin [OF conjunct2 [OF a]] summaryRow_values_Fin [OF conjunct2 [OF a]]
      by blast
  qed
  have null: "list_all (\<lambda>r. get r = None) data \<longrightarrow>
        addSummarySection_value AggSum get data = Fin 0
        \<and> addSummarySection_value AggAverage get data = NaN
        \<and> addSummarySection_value AggMin get data = PInf
        \<and> addSummarySection_value AggMax get data = NInf
        \<and> addSummaryRow_value AggSum get data = Fin 0
        \<and> addSummaryRow_value AggAverage get data = Fin 0
        \<and> addSummaryRow_value AggMin get data = PInf
        \<and> addSummaryRow_value AggMax get data = NInf"
    by (simp add: summary_values_all_null summaryRow_values_all_null reduce_add_def
        Math_min_def Math_max_def)
  have ex: "addSummarySection_value AggMin (\<lambda>x. Some (Fin x)) [3, 7, 2] = Fin 2
   \<and> addSummarySection_value AggMax (\<lambda>x. Some (Fin x)) [3, 7, 2] = Fin 7
   \<and> addSummaryRow_value AggMin (\<lambda>x. Some (Fin x)) [3, 7, 2] = Fin 2
   \<and> addSummaryRow_value AggMax (\<lambda>x. Some (Fin x)) [3, 7, 2] = Fin 7"
    by (simp add: summary_values_def summaryRow_values_def Math_min_def Math_max_def)
  have empty: "addSummarySection_value AggSum get [] = Fin 0 \<and> addSummaryRow_value AggSum get [] = Fin 0
   \<and> addSummarySection_value AggAverage get [] = NaN \<and> addSummaryRow_value AggAverage get [] = Fin 0"
    by (simp add: summary_values_def summaryRow_values_def reduce_add_def)
  have pivot: "pivot_value AggCount field data = Fin (of_nat (length data))
   \<and> pivot_value AggAverage field [] = Fin 0"
    by (simp add: pivot_nums_def)
  show ?thesis
    using fin null nan ex empty pivot
    by (simp only: addSummarySection_value.simps(3) addSummaryRow_value.simps(3)
        length_summary_values length_summaryRow_values simp_thms)
qed


theorem aggregate_results_witness:
  "list_all (\<lambda>r. id r = None) [None, None :: jsnum option]
   \<and> addSummarySection_value AggMin id [None, None] = PInf
   \<and> addSummarySection_value AggAverage id [None, None] = NaN
   \<and> addSummaryRow_value AggAverage id [None, None] = Fin 0
   \<and> [4, 1, 9 :: rat] \<noteq> []
   \<and> list_all (\<lambda>r. Some (Fin r) = Some (Fin (id r))) [4, 1, 9 :: rat]
   \<and> addSummaryRow_value AggMax (\<lambda>x. Some (Fin x)) [4, 1, 9] = Fin (Max (id ` set [4, 1, 9]))
   \<and> list_all (\<lambda>r. id r = None \<or> id r = Some NaN) [None, Some NaN]
   \<and> addSummaryRow_value AggMin id [None, Some NaN] = PInf
   \<and> addSummaryRow_value AggAverage id [None, Some NaN] = Fin 0"
proof -
  have a: "list_all (\<lambda>r. id r = None) [None, None :: jsnum option]" by simp
  have n: "list_all (\<lambda>r. id r = None \<or> id r = Some NaN) [None, Some NaN]" by simp
  have e: "addSummaryRow_value AggMin id [None, Some NaN] = PInf
   \<and> addSummaryRow_value AggAverage id [None, Some NaN] = Fin 0"
    using n aggregate_results [where get = id and data = "[None, Some NaN]"] by blast
  have b: "[4, 1, 9 :: rat] \<noteq> [] \<and> list_all (\<lambda>r. Some (Fin r) = Some (Fin (id r))) [4, 1, 9 :: rat]"
    by simp
  have c: "addSummarySection_value AggMin id [None, None] = PInf
   \<and> addSummarySection_value AggAverage id [None, None] = NaN
   \<and> addSummaryRow_value AggAverage id [None, None] = Fin 0"
    using a aggregate_results [where get = id and data = "[None, None]"] by blast
  have d: "addSummaryRow_value AggMax (\<lambda>x. Some (Fin x)) [4, 1, 9] = Fin (Max (id ` set [4, 1, 9]))"
    using b aggregate_results [where get = "\<lambda>x. Some (Fin x)" and data = "[4, 1, 9]" and f = id]
    by blast
  show ?thesis using a b c d n e by blast
qed

section \<open>Headers of the structured-record writer (claim C8)\<close>

lemma map_throwing_Inl:
  "list_ex (\<lambda>x. f x = Inl e) xs \<Longrightarrow> list_all (\<lambda>x. f x = Inl e \<or> (\<exists>y. f x = Inr y)) xs \<Longrightarrow>
   map_throwing f xs = Inl e"
  by (induction xs) (auto split: sum.splits)

lemma map_throwing_Inr:
  "list_all (\<lambda>x. f x = Inr (g x)) xs \<Longrightarrow> map_throwing f xs = Inr (map g xs)"
  by (induction xs) auto

lemma headers_all_truthy:
  "list_all (\<lambda>c. truthy (cell_value c)) cells \<Longrightarrow>
   map_throwing (header_of h) cells = Inr (map (\<lambda>c. js_String h (cell_value c)) cells)"
  by (rule map_throwing_Inr) (simp add: header_of_def Cell_toData_def Let_def list_all_iff)

lemma headers_some_falsy:
  "list_ex (\<lambda>c. \<not> truthy (cell_value c)) cells \<Longrightarrow>
   map_throwing (header_of h) cells = Inl ReferenceError"
  by (rule map_throwing_Inl)
     (auto simp: header_of_def Cell_toData_def Let_def list_ex_iff list_all_iff)

lemma generateJSONData_empty_header:
  "ws_rows sheet = first # others \<Longrightarrow> list_ex (\<lambda>c. \<not> truthy (cell_value c)) (row_cells first) \<Longrightarrow>
   generateJSONData h sheet = Inl ReferenceError"
  by (simp add: generateJSONData_def headers_some_falsy)

text \<open>
  Claim C8 at a failing input. A first row with an empty header cell (\<^verbatim>\<open>null\<close>, or the
  empty string) makes \<^verbatim>\<open>generateJSONData\<close> throw a ReferenceError instead of naming the
  column \<^verbatim>\<open>Column2\<close>, and \<^verbatim>\<open>JSONWriter.write\<close> returns a rejected promise.
\<close>

theorem generateJSONData_empty_header_throws:
  "generateJSONData h
     (plain_Worksheet ''Users'' [[JStr ''Name'', JNull], [JStr ''John'', JNum (Fin 30)]])
     = Inl ReferenceError
   \<and> JSONWriter_write h
       \<lparr>wb_sheets = [plain_Worksheet ''Users'' [[JStr ''Name'', JStr []], [JStr ''John'', JNum (Fin 30)]]],
        wb_properties = []\<rparr>
     = Rejected ReferenceError"
  by (simp add: JSONWriter_write_def generateJSONData_def plain_Worksheet_def plain_Row_def
      header_of_def Cell_toData_def Cell_new_def setValue_def inferType_def new_Cell_def)

section \<open>Styles returned by the builder (claim C9)\<close>

text \<open>
  What \<^verbatim>\<open>build()\<close> does protect. Every state the builder reaches is well formed, and a call
  other than the four single-side border methods leaves every allocated object as it is
  (\<^verbatim>\<open>border\<close> and \<^verbatim>\<open>borderAll\<close> store a new object). So a style returned by \<^verbatim>\<open>build()\<close> keeps
  its value through any later calls that are not single-side border calls.
\<close>

lemma sb_wf_create: "sb_wf StyleBuilder_create"
  by (simp add: sb_wf_def StyleBuilder_create_def empty_style_def)

lemma sb_wf_apply: "sb_wf st \<Longrightarrow> sb_wf (sb_apply call st)"
  by (cases call)
     (auto simp: sb_wf_def alloc_Border_def set_side_def ensure_border_def Let_def
       split: option.splits)

lemma sb_wf_run: "sb_wf st \<Longrightarrow> sb_wf (sb_run calls st)"
  unfolding sb_run_def by (induction calls arbitrary: st) (simp_all add: sb_wf_apply)

lemma sb_apply_heap_frame:
  "sb_wf st \<Longrightarrow> \<not> sets_border_side call \<Longrightarrow> a < sb_next st \<Longrightarrow>
   sb_heap (sb_apply call st) a = sb_heap st a"
  by (cases call) (auto simp: alloc_Border_def Let_def)

lemma sb_apply_next_mono: "sb_next st \<le> sb_next (sb_apply call st)"
  by (cases call)
     (auto simp: alloc_Border_def set_side_def ensure_border_def Let_def split: option.splits)

lemma sb_run_heap_frame:
  "sb_wf st \<Longrightarrow> list_all (\<lambda>call. \<not> sets_border_side call) calls \<Longrightarrow> a < sb_next st \<Longrightarrow>
   sb_heap (sb_run calls st) a = sb_heap st a"
proof (induction calls arbitrary: st)
  case Nil
  then show ?case by (simp add: sb_run_def)
next
  case (Cons call calls)
  have w: "sb_wf (sb_apply call st)" using Cons.prems(1) by (rule sb_wf_apply)
  have n: "a < sb_next (sb_apply call st)"
    using Cons.prems(3) sb_apply_next_mono [of st call] by simp
  have "sb_heap (sb_run calls (sb_apply call st)) a = sb_heap (sb_apply call st) a"
    using Cons.IH [OF w _ n] Cons.prems(2) by simp
  also have "\<dots> = sb_heap st a"
    using Cons.prems by (simp add: sb_apply_heap_frame)
  finally show ?case by (simp add: sb_run_def)
qed

lemma build_value_kept:
  assumes "list_all (\<lambda>call. \<not> sets_border_side call) later"
  shows "style_value (sb_heap (sb_run later (sb_run calls StyleBuilder_create)))
           (StyleBuilder_build (sb_run calls StyleBuilder_create))
         = style_value (sb_heap (sb_run calls StyleBuilder_create))
           (StyleBuilder_build (sb_run calls StyleBuilder_create))"
proof -
  let ?st = "sb_run calls StyleBuilder_create"
  have w: "sb_wf ?st" by (rule sb_wf_run) (rule sb_wf_create)
  show ?thesis
  proof (cases "cs_border (sb_style ?st)")
    case None
    then show ?thesis by (simp add: style_value_def StyleBuilder_build_def)
  next
    case (Some a)
    then have "a < sb_next ?st" using w by (simp add: sb_wf_def)
    then have "sb_heap (sb_run later ?st) a = sb_heap ?st a"
      using sb_run_heap_frame [OF w assms] by simp
    then show ?thesis using Some by (simp add: style_value_def StyleBuilder_build_def)
  qed
qed

text \<open>
  Claim C9 at a failing input. After \<^verbatim>\<open>borderAll()\<close>, the style returned by \<^verbatim>\<open>build()\<close>
  has four thin border sides; a later \<^verbatim>\<open>borderTop('thick')\<close> on the builder changes the top
  side of that returned style to thick, because \<^verbatim>\<open>build()\<close> copies the reference to the
  \<^verbatim>\<open>Border\<close> object and \<^verbatim>\<open>borderTop\<close> updates that object in place.
\<close>

theorem build_shares_border:
  "cs_border (style_value (sb_heap (sb_run [CallBorderAll None None] StyleBuilder_create))
      (StyleBuilder_build (sb_run [CallBorderAll None None] StyleBuilder_create)))
     = Some \<lparr>border_top = Some \<lparr>bs_style = ''thin'', bs_color = None\<rparr>,
              border_right = Some \<lparr>bs_style = ''thin'', bs_color = None\<rparr>,
              border_bottom = Some \<lparr>bs_style = ''thin'', bs_color = None\<rparr>,
              border_left = Some \<lparr>bs_style = ''thin'', bs_color = None\<rparr>\<rparr>
   \<and> cs_border (style_value
        (sb_heap (sb_apply (CallBorderTop (Some ''thick'') None)
                    (sb_run [CallBorderAll None None] StyleBuilder_create)))
        (StyleBuilder_build (sb_run [CallBorderAll None None] StyleBuilder_create)))
     = Some \<lparr>border_top = Some \<lparr>bs_style = ''thick'', bs_color = None\<rparr>,
              border_right = Some \<lparr>bs_style = ''thin'', bs_color = None\<rparr>,
              border_bottom = Some \<lparr>bs_style = ''thin'', bs_color = None\<rparr>,
              border_left = Some \<lparr>bs_style = ''thin'', bs_color = None\<rparr>\<rparr>"
  by (simp add: sb_run_def StyleBuilder_create_def StyleBuilder_build_def style_value_def
      alloc_Border_def set_side_def ensure_border_def or_thin_def empty_style_def Let_def)

section \<open>Dispatch on the format key (claim C4)\<close>

text \<open>
  \<^verbatim>\<open>Workbook.export\<close> with the unknown format key \<^verbatim>\<open>pdf\<close> resolves with the output of the
  spreadsheet-package writer.
\<close>

theorem export_unknown_format_counterexample:
  "Workbook_export example_host
     \<lparr>wb_sheets = [plain_Worksheet ''Users'' [[JStr ''Name'']]], wb_properties = []\<rparr>
     \<lparr>eo_filename = None, eo_format = Some ''pdf''\<rparr>
   = Resolved
       \<lparr>blob_text =
          ''<?xml version='' @ [dquote] @ ''1.0'' @ [dquote] @ '' encoding='' @ [dquote]
          @ ''UTF-8'' @ [dquote] @ ''?><workbook xmlns='' @ [dquote]
          @ ''http://schemas.openxmlformats.org/spreadsheetml/2006/main'' @ [dquote]
          @ ''><sheets><sheet name='' @ [dquote] @ ''Users'' @ [dquote] @ '' sheetId=''
          @ [dquote] @ ''1'' @ [dquote] @ '' r:id='' @ [dquote] @ ''rId1'' @ [dquote]
          @ ''/></sheets></workbook>'',
        blob_type = ''application/vnd.openxmlformats-officedocument.spreadsheetml.sheet''\<rparr>"
  by (simp add: Workbook_export_def ExcelWriter_write_def generateExcelData_def
      generateSheetData_def sheet_cell_def string_truthy_def Cell_toData_def Cell_new_def
      setValue_def inferType_def new_Cell_def plain_Worksheet_def plain_Row_def sheetName_def
      createExcelFile_def generateWorkbookXML_def sheet_element_def obj_assign_def
      show_nat_eval Let_def)

text \<open>
  Claim C4, as the code has it. \<^verbatim>\<open>Workbook.export\<close> and \<^verbatim>\<open>ExportBuilder.export\<close> have no
  failure for an unknown format: every format key other than \<^verbatim>\<open>csv\<close> and \<^verbatim>\<open>json\<close>, an
  unknown key included, gets the result of the spreadsheet-package writer.
  \<^verbatim>\<open>ExportBuilder.download\<close> throws \<^verbatim>\<open>Error('Unsupported format')\<close> to its caller, before
  any writer is called, for every non-empty format key other than \<^verbatim>\<open>xlsx\<close>, \<^verbatim>\<open>csv\<close> and
  \<^verbatim>\<open>json\<close>, and throws in no other case.
\<close>

theorem export_dispatch:
  "(eo_format options \<noteq> Some ''csv'' \<and> eo_format options \<noteq> Some ''json'' \<longrightarrow>
      Workbook_export h workbook options = ExcelWriter_write h workbook
      \<and> ExportBuilder_export h workbook options = ExcelWriter_write h workbook)
   \<and> (eo_format options = Some f \<and> f \<noteq> [] \<and> f \<noteq> ''xlsx'' \<and> f \<noteq> ''csv'' \<and> f \<noteq> ''json'' \<longrightarrow>
      ExportBuilder_download h workbook options = Thrown (Error ''Unsupported format''))
   \<and> (ExportBuilder_download h workbook options = Thrown e \<longrightarrow>
      e = Error ''Unsupported format''
      \<and> (\<exists>g. eo_format options = Some g \<and> g \<noteq> [] \<and> g \<noteq> ''xlsx'' \<and> g \<noteq> ''csv'' \<and> g \<noteq> ''json''))"
proof (intro conjI impI)
  assume a: "eo_format options \<noteq> Some ''csv'' \<and> eo_format options \<noteq> Some ''json''"
  then show w: "Workbook_export h workbook options = ExcelWriter_write h workbook"
    by (cases "eo_format options") (simp_all add: Workbook_export_def)
  then show "ExportBuilder_export h workbook options = ExcelWriter_write h workbook"
    by (simp add: ExportBuilder_export_def)
next
  assume "eo_format options = Some f \<and> f \<noteq> [] \<and> f \<noteq> ''xlsx'' \<and> f \<noteq> ''csv'' \<and> f \<noteq> ''json''"
  then show "ExportBuilder_download h workbook options = Thrown (Error ''Unsupported format'')"
    by (simp add: ExportBuilder_download_def or_default_def Let_def)
next
  assume t: "ExportBuilder_download h workbook options = Thrown e"
  define filename where "filename = or_default (eo_filename options) ''export.xlsx''"
  define format where "format = or_default (eo_format options)
                     (if endsWith filename ''.csv'' then ''csv''
                      else if endsWith filename ''.json'' then ''json''
                      else ''xlsx'')"
  have d: "ExportBuilder_download h workbook options =
      (if format = ''xlsx'' then Started (ExcelWriter_write h workbook) filename
         else if format = ''csv'' then Started (CSVWriter_write h workbook) filename
         else if format = ''json'' then Started (JSONWriter_write h workbook) filename
         else Thrown (Error ''Unsupported format''))"
    by (simp add: ExportBuilder_download_def Let_def filename_def format_def)
  from t d have f: "format \<noteq> ''xlsx''" "format \<noteq> ''csv''" "format \<noteq> ''json''"
    and e: "e = Error ''Unsupported format''"
    by (auto split: if_splits)
  show "e = Error ''Unsupported format''" by (rule e)
  from f have "eo_format options = Some format \<and> format \<noteq> []"
    unfolding format_def or_default_def
    by (cases "eo_format options") (auto split: if_splits)
  with f show "\<exists>g. eo_format options = Some g \<and> g \<noteq> [] \<and> g \<noteq> ''xlsx'' \<and> g \<noteq> ''csv'' \<and> g \<noteq> ''json''"
    by blast
qed

theorem export_dispatch_witness:
  "Workbook_export example_host \<lparr>wb_sheets = [], wb_properties = []\<rparr>
      \<lparr>eo_filename = None, eo_format = Some ''pdf''\<rparr>
     = ExcelWriter_write example_host \<lparr>wb_sheets = [], wb_properties = []\<rparr>
   \<and> ExportBuilder_download example_host \<lparr>wb_sheets = [], wb_properties = []\<rparr>
      \<lparr>eo_filename = None, eo_format = Some ''pdf''\<rparr>
     = Thrown (Error ''Unsupported format'')"
  using export_dispatch [of "\<lparr>eo_filename = None, eo_format = Some ''pdf''\<rparr>" example_host
      "\<lparr>wb_sheets = [], wb_properties = []\<rparr>" "''pdf''" "Error ''Unsupported format''"]
  by simp

section \<open>Week buckets of the timeline (claim C7)\<close>

declare year_down.simps [simp del] year_up.simps [simp del]

lemma DayFromYear_mono: "a \<le> b \<Longrightarrow> DayFromYear a \<le> DayFromYear b"
proof (induction b rule: int_ge_induct)
  case base
  show ?case by simp
next
  case (step i)
  then show ?case using DayFromYear_step [of i] by simp
qed

lemma DayFromYear_strict: "DayFromYear a < DayFromYear b \<Longrightarrow> a < b"
  using DayFromYear_mono [of b a] by (cases "a < b") simp_all

lemma year_down_le: "DayFromYear (year_down y day) \<le> day"
proof (induction y day rule: year_down.induct)
  case (1 y day)
  show ?case
  proof (cases "day < DayFromYear y")
    case True
    then show ?thesis using 1 by (subst year_down.simps) simp
  next
    case False
    then show ?thesis by (subst year_down.simps) simp
  qed
qed

lemma year_up_spec:
  "DayFromYear y \<le> day \<Longrightarrow>
   DayFromYear (year_up y day) \<le> day \<and> day < DayFromYear (year_up y day + 1)"
proof (induction y day rule: year_up.induct)
  case (1 y day)
  show ?case
  proof (cases "DayFromYear (y + 1) \<le> day")
    case True
    then show ?thesis using 1 by (subst (1 2) year_up.simps) simp
  next
    case False
    then show ?thesis using 1 by (subst (1 2) year_up.simps) simp
  qed
qed

lemma YearFromDay_spec:
  "DayFromYear (YearFromDay day) \<le> day \<and> day < DayFromYear (YearFromDay day + 1)"
  unfolding YearFromDay_def by (rule year_up_spec) (rule year_down_le)

lemma YearFromDay_unique:
  "DayFromYear y \<le> day \<Longrightarrow> day < DayFromYear (y + 1) \<Longrightarrow> YearFromDay day = y"
proof -
  assume a: "DayFromYear y \<le> day" and b: "day < DayFromYear (y + 1)"
  let ?Y = "YearFromDay day"
  have s: "DayFromYear ?Y \<le> day" "day < DayFromYear (?Y + 1)" using YearFromDay_spec by simp_all
  have "DayFromYear y < DayFromYear (?Y + 1)" using a s(2) by simp
  then have "y < ?Y + 1" by (rule DayFromYear_strict)
  moreover have "DayFromYear ?Y < DayFromYear (y + 1)" using b s(1) by simp
  then have "?Y < y + 1" by (rule DayFromYear_strict)
  ultimately show ?thesis by simp
qed


lemma month_offset_nonneg: "0 \<le> m \<Longrightarrow> m \<le> 11 \<Longrightarrow> 0 \<le> month_offset m"
proof -
  assume "0 \<le> m" "m \<le> 11"
  then have l: "nat m < length [0, 31, 59, 90, 120, 151, 181, 212, 243, 273, 304, 334 :: int]"
    by simp
  have "list_all (\<lambda>x. 0 \<le> x) [0, 31, 59, 90, 120, 151, 181, 212, 243, 273, 304, 334 :: int]"
    by simp
  then show ?thesis unfolding month_offset_def using l by (simp only: list_all_length)
qed

lemma MakeDay_ge:
  "0 \<le> m \<Longrightarrow> m \<le> 11 \<Longrightarrow> 1 \<le> d \<Longrightarrow> DayFromYear y \<le> MakeDay y m d"
  using month_offset_nonneg [of m] by (simp add: MakeDay_def Let_def)

lemma MakeDay_Jan1: "MakeDay y 0 1 = DayFromYear y"
  by (simp add: MakeDay_def month_offset_def)

lemma Thursday_of_week:
  "WeekDay (n + 4 - (if WeekDay n = 0 then 7 else WeekDay n)) = 4
   \<and> WeekDay (n + 4 - (if WeekDay n = 0 then 7 else WeekDay n) - 3) = 1
   \<and> n + 4 - (if WeekDay n = 0 then 7 else WeekDay n) - 3 \<le> n
   \<and> n \<le> n + 4 - (if WeekDay n = 0 then 7 else WeekDay n) + 3"
proof -
  define q r where "q = (n + 4) div 7" and "r = (n + 4) mod 7"
  have r: "0 \<le> r" "r < 7" by (simp_all add: r_def)
  have "7 * q + r = n + 4" by (simp add: q_def r_def)
  then have n: "n = 7 * q + r - 4" by simp
  have w: "WeekDay n = r" by (simp add: WeekDay_def r_def)
  show ?thesis
  proof (cases "r = 0")
    case True
    have "(7 * q - 7 + 4) mod 7 = (4 + 7 * (q - 1)) mod 7" by (simp add: algebra_simps)
    also have "\<dots> = 4" by (simp only: mod_mult_self2) simp
    finally have a: "(7 * q - 7 + 4) mod 7 = 4" .
    have "(7 * q - 7 - 3 + 4) mod 7 = (1 + 7 * (q - 1)) mod 7" by (simp add: algebra_simps)
    also have "\<dots> = 1" by (simp only: mod_mult_self2) simp
    finally have b: "(7 * q - 7 - 3 + 4) mod 7 = 1" .
    show ?thesis unfolding w using True a b by (simp add: n WeekDay_def)
  next
    case False
    have "(7 * q + 4) mod 7 = (4 + 7 * q) mod 7" by (simp add: algebra_simps)
    also have "\<dots> = 4" by (simp only: mod_mult_self2) simp
    finally have a: "(7 * q + 4) mod 7 = 4" .
    have "(7 * q - 3 + 4) mod 7 = (1 + 7 * q) mod 7" by (simp add: algebra_simps)
    also have "\<dots> = 1" by (simp only: mod_mult_self2) simp
    finally have b: "(7 * q - 3 + 4) mod 7 = 1" .
    show ?thesis unfolding w using False a b r by (simp add: n WeekDay_def)
  qed
qed

lemma ceil7_bounds: "7 * (ceil7 x - 1) < x \<and> x \<le> 7 * ceil7 x"
proof -
  define k r where "k = (- x) div 7" and "r = (- x) mod 7"
  have r: "0 \<le> r" "r < 7" by (simp_all add: r_def)
  have "7 * k + r = - x" by (simp add: k_def r_def)
  moreover have "ceil7 x = - k" by (simp add: ceil7_def k_def)
  ultimately show ?thesis using r by simp
qed

lemma DayFromYear_100_101: "DayFromYear 100 + 3 \<le> DayFromYear 101"
  by (simp add: DayFromYear_def)

lemma getWeekNumber_2024_01_01: "getWeekNumber 2024 0 1 = 1"
  by code_simp

lemma getWeekNumber_2024_01_08: "getWeekNumber 2024 0 8 = 2"
  by code_simp

lemma getWeekNumber_2024_12_30: "getWeekNumber 2024 11 30 = 1"
  by code_simp

lemma getWeekNumber_2024_03_04: "getWeekNumber 2024 2 4 = 10"
  by code_simp

text \<open>
  The week number. For a record whose date has the local calendar fields year \<open>y > 100\<close>,
  month \<open>m\<close> (0 to 11) and day \<open>d\<close>, and with no \<^verbatim>\<open>format\<close> option, the week bucket key is
  the decimal year \<open>y\<close>, then \<open>-W\<close>, then the week number \<open>w\<close> without padding. \<open>w\<close> is the
  ISO week number: with \<open>n\<close> the day of the date, \<open>t\<close> is the Thursday of the week from Monday
  \<open>t - 3\<close> to Sunday \<open>t + 3\<close> that contains \<open>n\<close>, \<open>Y\<close> is the year that contains \<open>t\<close>, and
  \<open>t\<close> is \<open>w - 1\<close> weeks after the first Thursday of \<open>Y\<close> (the Thursday among the first
  seven days of \<open>Y\<close>): week 1 is the week that contains the year's first Thursday. The
  year of the key is \<open>y\<close>, not \<open>Y\<close>.
\<close>

lemma getWeekNumber_iso_week:
  "100 < y \<and> 0 \<le> m \<and> m \<le> 11 \<and> 1 \<le> d \<longrightarrow>
      (let n = MakeDay y m d;
           t = n + 4 - (if WeekDay n = 0 then 7 else WeekDay n);
           Y = YearFromDay t;
           w = getWeekNumber y m d
       in period_key Week None \<lparr>dv_fullYear = y, dv_month = m, dv_date = d, dv_iso = s\<rparr>
            = show_int y @ ''-W'' @ show_int w
          \<and> WeekDay t = 4 \<and> WeekDay (t - 3) = 1 \<and> t - 3 \<le> n \<and> n \<le> t + 3
          \<and> DayFromYear Y \<le> t \<and> t < DayFromYear (Y + 1)
          \<and> 1 \<le> w \<and> DayFromYear Y \<le> t - 7 * (w - 1) \<and> t - 7 * (w - 1) < DayFromYear Y + 7)"
proof (intro impI)
  assume a: "100 < y \<and> 0 \<le> m \<and> m \<le> 11 \<and> 1 \<le> d"
  define n where "n = MakeDay y m d"
  define t where "t = n + 4 - (if WeekDay n = 0 then 7 else WeekDay n)"
  define Y where "Y = YearFromDay t"
  define w where "w = getWeekNumber y m d"
  have utc: "Date_UTC y m d = n" using a by (simp add: Date_UTC_def n_def)
  have th: "WeekDay t = 4" "WeekDay (t - 3) = 1" "t - 3 \<le> n" "n \<le> t + 3"
    using Thursday_of_week [of n] by (simp_all add: t_def)
  have Ys: "DayFromYear Y \<le> t" "t < DayFromYear (Y + 1)"
    using YearFromDay_spec [of t] by (simp_all add: Y_def)
  have "DayFromYear 101 \<le> DayFromYear y" using a by (intro DayFromYear_mono) simp
  moreover have "DayFromYear y \<le> n" using a by (simp add: n_def MakeDay_ge)
  ultimately have "DayFromYear 100 \<le> t" using th(4) DayFromYear_100_101 by simp
  then have "DayFromYear 100 < DayFromYear (Y + 1)" using Ys(2) by simp
  then have "100 < Y + 1" by (rule DayFromYear_strict)
  then have start: "Date_UTC Y 0 1 = DayFromYear Y" by (simp add: Date_UTC_def MakeDay_Jan1)
  have w: "w = ceil7 (t - DayFromYear Y + 1)"
    unfolding w_def getWeekNumber_def utc Let_def t_def [symmetric] Y_def [symmetric] start ..
  have cb: "7 * (w - 1) < t - DayFromYear Y + 1" "t - DayFromYear Y + 1 \<le> 7 * w"
    using ceil7_bounds [of "t - DayFromYear Y + 1"] by (simp_all add: w)
  have w1: "1 \<le> w" using cb(2) Ys(1) by simp
  have f: "DayFromYear Y \<le> t - 7 * (w - 1)" "t - 7 * (w - 1) < DayFromYear Y + 7"
    using cb by simp_all
  have key: "period_key Week None \<lparr>dv_fullYear = y, dv_month = m, dv_date = d, dv_iso = s\<rparr>
      = show_int y @ ''-W'' @ show_int w"
    by (simp add: period_key_def string_truthy_def w_def)
  show "let n = MakeDay y m d;
           t = n + 4 - (if WeekDay n = 0 then 7 else WeekDay n);
           Y = YearFromDay t;
           w = getWeekNumber y m d
       in period_key Week None \<lparr>dv_fullYear = y, dv_month = m, dv_date = d, dv_iso = s\<rparr>
            = show_int y @ ''-W'' @ show_int w
          \<and> WeekDay t = 4 \<and> WeekDay (t - 3) = 1 \<and> t - 3 \<le> n \<and> n \<le> t + 3
          \<and> DayFromYear Y \<le> t \<and> t < DayFromYear (Y + 1)
          \<and> 1 \<le> w \<and> DayFromYear Y \<le> t - 7 * (w - 1) \<and> t - 7 * (w - 1) < DayFromYear Y + 7"
    unfolding Let_def n_def [symmetric] t_def [symmetric] Y_def [symmetric] w_def [symmetric]
    using key th Ys w1 f by blast
qed

lemma Object_entries_week_keys:
  "Object_entries [(''2024-W2'', a), (''2024-W10'', b)] = [(''2024-W2'', a), (''2024-W10'', b)]"
  by (simp add: Object_entries_def is_array_index_def is_digit_def)

text \<open>
  Claim C7 at a failing input. Records dated 2024-01-01 and 2024-01-08, bucketed by week
  with no \<^verbatim>\<open>format\<close> option, get the keys \<open>2024-W1\<close> and \<open>2024-W2\<close>, not \<open>2024-W01\<close> and
  \<open>2024-W02\<close>: the week number is not padded to two digits, while the month key of the same
  function is (\<open>2024-01\<close>). The keys are compared as strings when
  \<^verbatim>\<open>getPreviousPeriod\<close> looks for the bucket before a given one: the key \<open>2024-W10\<close> of
  2024-03-04 sorts before \<open>2024-W2\<close>, so the bucket of week 10 is taken for the one before
  week 2. The year of the key is the calendar year of the date and not the year of its ISO
  week: 2024-12-30, a Monday in week 1 of 2025, falls into the bucket \<open>2024-W1\<close> of
  2024-01-01.
\<close>

theorem week_keys_not_padded:
  "groupByDate id Week None
     [\<lparr>dv_fullYear = 2024, dv_month = 0, dv_date = 1, dv_iso = ''2024-01-01T00:00:00.000Z''\<rparr>,
      \<lparr>dv_fullYear = 2024, dv_month = 0, dv_date = 8, dv_iso = ''2024-01-08T00:00:00.000Z''\<rparr>]
   = Inr [(''2024-W1'',
           [\<lparr>dv_fullYear = 2024, dv_month = 0, dv_date = 1, dv_iso = ''2024-01-01T00:00:00.000Z''\<rparr>]),
          (''2024-W2'',
           [\<lparr>dv_fullYear = 2024, dv_month = 0, dv_date = 8, dv_iso = ''2024-01-08T00:00:00.000Z''\<rparr>])]
   \<and> period_key Week None
       \<lparr>dv_fullYear = 2024, dv_month = 0, dv_date = 1, dv_iso = ''2024-01-01T00:00:00.000Z''\<rparr>
     \<noteq> ''2024-W01''
   \<and> period_key Week None
       \<lparr>dv_fullYear = 2024, dv_month = 0, dv_date = 8, dv_iso = ''2024-01-08T00:00:00.000Z''\<rparr>
     \<noteq> ''2024-W02''
   \<and> period_key Month None
       \<lparr>dv_fullYear = 2024, dv_month = 0, dv_date = 1, dv_iso = ''2024-01-01T00:00:00.000Z''\<rparr>
     = ''2024-01''
   \<and> period_key Week None
       \<lparr>dv_fullYear = 2024, dv_month = 2, dv_date = 4, dv_iso = ''2024-03-04T00:00:00.000Z''\<rparr>
     = ''2024-W10''
   \<and> groupByDate id Week None
       [\<lparr>dv_fullYear = 2024, dv_month = 0, dv_date = 8, dv_iso = ''2024-01-08T00:00:00.000Z''\<rparr>,
        \<lparr>dv_fullYear = 2024, dv_month = 2, dv_date = 4, dv_iso = ''2024-03-04T00:00:00.000Z''\<rparr>]
     = Inr [(''2024-W2'', [\<lparr>dv_fullYear = 2024, dv_month = 0, dv_date = 8, dv_iso = ''2024-01-08T00:00:00.000Z''\<rparr>]),
            (''2024-W10'', [\<lparr>dv_fullYear = 2024, dv_month = 2, dv_date = 4, dv_iso = ''2024-03-04T00:00:00.000Z''\<rparr>])]
   \<and> getPreviousPeriod ''2024-W2''
       [(''2024-W2'', [\<lparr>dv_fullYear = 2024, dv_month = 0, dv_date = 8, dv_iso = ''2024-01-08T00:00:00.000Z''\<rparr>]),
        (''2024-W10'', [\<lparr>dv_fullYear = 2024, dv_month = 2, dv_date = 4, dv_iso = ''2024-03-04T00:00:00.000Z''\<rparr>])]
     = Some [\<lparr>dv_fullYear = 2024, dv_month = 2, dv_date = 4, dv_iso = ''2024-03-04T00:00:00.000Z''\<rparr>]
   \<and> groupByDate id Week None
       [\<lparr>dv_fullYear = 2024, dv_month = 0, dv_date = 1, dv_iso = ''2024-01-01T00:00:00.000Z''\<rparr>,
        \<lparr>dv_fullYear = 2024, dv_month = 11, dv_date = 30, dv_iso = ''2024-12-30T00:00:00.000Z''\<rparr>]
     = Inr [(''2024-W1'',
             [\<lparr>dv_fullYear = 2024, dv_month = 0, dv_date = 1, dv_iso = ''2024-01-01T00:00:00.000Z''\<rparr>,
              \<lparr>dv_fullYear = 2024, dv_month = 11, dv_date = 30, dv_iso = ''2024-12-30T00:00:00.000Z''\<rparr>])]
   \<and> YearFromDay (MakeDay 2024 11 30 + 4
        - (if WeekDay (MakeDay 2024 11 30) = 0 then 7 else WeekDay (MakeDay 2024 11 30))) = 2025"
proof (intro conjI)
  have k1: "period_key Week None
       \<lparr>dv_fullYear = 2024, dv_month = 0, dv_date = 1, dv_iso = ''2024-01-01T00:00:00.000Z''\<rparr>
     = ''2024-W1''"
    by (simp add: period_key_def string_truthy_def getWeekNumber_2024_01_01 show_int_def
        show_nat_eval)
  have k2: "period_key Week None
       \<lparr>dv_fullYear = 2024, dv_month = 0, dv_date = 8, dv_iso = ''2024-01-08T00:00:00.000Z''\<rparr>
     = ''2024-W2''"
    by (simp add: period_key_def string_truthy_def getWeekNumber_2024_01_08 show_int_def
        show_nat_eval)
  have k3: "period_key Week None
       \<lparr>dv_fullYear = 2024, dv_month = 11, dv_date = 30, dv_iso = ''2024-12-30T00:00:00.000Z''\<rparr>
     = ''2024-W1''"
    by (simp add: period_key_def string_truthy_def getWeekNumber_2024_12_30 show_int_def
        show_nat_eval)
  show "groupByDate id Week None
     [\<lparr>dv_fullYear = 2024, dv_month = 0, dv_date = 1, dv_iso = ''2024-01-01T00:00:00.000Z''\<rparr>,
      \<lparr>dv_fullYear = 2024, dv_month = 0, dv_date = 8, dv_iso = ''2024-01-08T00:00:00.000Z''\<rparr>]
   = Inr [(''2024-W1'',
           [\<lparr>dv_fullYear = 2024, dv_month = 0, dv_date = 1, dv_iso = ''2024-01-01T00:00:00.000Z''\<rparr>]),
          (''2024-W2'',
           [\<lparr>dv_fullYear = 2024, dv_month = 0, dv_date = 8, dv_iso = ''2024-01-08T00:00:00.000Z''\<rparr>])]"
    by (simp add: groupByDate_def group_step_def k1 k2 object_prototype_keys_def obj_assign_def)
  show "period_key Week None
       \<lparr>dv_fullYear = 2024, dv_month = 0, dv_date = 1, dv_iso = ''2024-01-01T00:00:00.000Z''\<rparr>
     \<noteq> ''2024-W01''"
    by (simp add: k1)
  show "period_key Week None
       \<lparr>dv_fullYear = 2024, dv_month = 0, dv_date = 8, dv_iso = ''2024-01-08T00:00:00.000Z''\<rparr>
     \<noteq> ''2024-W02''"
    by (simp add: k2)
  show "period_key Month None
       \<lparr>dv_fullYear = 2024, dv_month = 0, dv_date = 1, dv_iso = ''2024-01-01T00:00:00.000Z''\<rparr>
     = ''2024-01''"
    by (simp add: period_key_def string_truthy_def padStart2_def show_int_def show_nat_eval)
  show "period_key Week None
       \<lparr>dv_fullYear = 2024, dv_month = 2, dv_date = 4, dv_iso = ''2024-03-04T00:00:00.000Z''\<rparr>
     = ''2024-W10''"
    by (simp add: period_key_def string_truthy_def getWeekNumber_2024_03_04 show_int_def
        show_nat_eval)
  have k4: "period_key Week None
       \<lparr>dv_fullYear = 2024, dv_month = 2, dv_date = 4, dv_iso = ''2024-03-04T00:00:00.000Z''\<rparr>
     = ''2024-W10''"
    by (simp add: period_key_def string_truthy_def getWeekNumber_2024_03_04 show_int_def
        show_nat_eval)
  show "groupByDate id Week None
       [\<lparr>dv_fullYear = 2024, dv_month = 0, dv_date = 8, dv_iso = ''2024-01-08T00:00:00.000Z''\<rparr>,
        \<lparr>dv_fullYear = 2024, dv_month = 2, dv_date = 4, dv_iso = ''2024-03-04T00:00:00.000Z''\<rparr>]
     = Inr [(''2024-W2'', [\<lparr>dv_fullYear = 2024, dv_month = 0, dv_date = 8, dv_iso = ''2024-01-08T00:00:00.000Z''\<rparr>]),
            (''2024-W10'', [\<lparr>dv_fullYear = 2024, dv_month = 2, dv_date = 4, dv_iso = ''2024-03-04T00:00:00.000Z''\<rparr>])]"
    by (simp add: groupByDate_def group_step_def k2 k4 object_prototype_keys_def obj_assign_def)
  show "getPreviousPeriod ''2024-W2''
       [(''2024-W2'', [\<lparr>dv_fullYear = 2024, dv_month = 0, dv_date = 8, dv_iso = ''2024-01-08T00:00:00.000Z''\<rparr>]),
        (''2024-W10'', [\<lparr>dv_fullYear = 2024, dv_month = 2, dv_date = 4, dv_iso = ''2024-03-04T00:00:00.000Z''\<rparr>])]
     = Some [\<lparr>dv_fullYear = 2024, dv_month = 2, dv_date = 4, dv_iso = ''2024-03-04T00:00:00.000Z''\<rparr>]"
    by (simp add: getPreviousPeriod_def Object_entries_week_keys Array_sort_def Let_def)
  show "groupByDate id Week None
       [\<lparr>dv_fullYear = 2024, dv_month = 0, dv_date = 1, dv_iso = ''2024-01-01T00:00:00.000Z''\<rparr>,
        \<lparr>dv_fullYear = 2024, dv_month = 11, dv_date = 30, dv_iso = ''2024-12-30T00:00:00.000Z''\<rparr>]
     = Inr [(''2024-W1'',
             [\<lparr>dv_fullYear = 2024, dv_month = 0, dv_date = 1, dv_iso = ''2024-01-01T00:00:00.000Z''\<rparr>,
              \<lparr>dv_fullYear = 2024, dv_month = 11, dv_date = 30, dv_iso = ''2024-12-30T00:00:00.000Z''\<rparr>])]"
    by (simp add: groupByDate_def group_step_def k1 k3 object_prototype_keys_def obj_assign_def)
  show "YearFromDay (MakeDay 2024 11 30 + 4
        - (if WeekDay (MakeDay 2024 11 30) = 0 then 7 else WeekDay (MakeDay 2024 11 30))) = 2025"
    by code_simp
qed

section \<open>Grouped sections (claim C2)\<close>

lemma first_seen_snoc:
  "first_seen (xs @ [x]) = (if x \<in> set xs then first_seen xs else first_seen xs @ [x])"
  by (simp add: first_seen_def)

lemma set_first_seen: "set (first_seen xs) = set xs"
  by (simp add: first_seen_def)

lemma distinct_first_seen: "distinct (first_seen xs)"
  by (simp add: first_seen_def)

lemma first_seen_Nil: "first_seen [] = []"
  by (simp add: first_seen_def)

lemma obj_update_new: "k \<notin> fst ` set g \<Longrightarrow> obj_update k v g = g @ [(k, v)]"
  by (induction g) auto

lemma obj_update_last: "k \<notin> fst ` set g \<Longrightarrow> obj_update k v (g @ [(k, w)]) = g @ [(k, v)]"
  by (induction g) auto

lemma obj_update_map:
  "obj_update k v (map (\<lambda>k'. (k', F k')) ks)
     = (if k \<in> set ks then map (\<lambda>k'. (k', if k' = k then v else F k')) ks
        else map (\<lambda>k'. (k', F k')) ks @ [(k, v)])"
  if "distinct ks"
  using that by (induction ks) auto

lemma map_of_map_keys:
  "map_of (map (\<lambda>k'. (k', F k')) ks) k = (if k \<in> set ks then Some (F k) else None)"
  by (induction ks) auto


lemma proto_key_member: "''__proto__'' \<in> set object_prototype_keys"
  by (simp add: object_prototype_keys_def)

lemma partition_by_Nil: "partition_by key_of [] = []"
  by (simp add: partition_by_def first_seen_Nil)

lemma group_step_partition:
  assumes "key_of x \<notin> set object_prototype_keys"
  shows "group_step (key_of x) x (partition_by key_of seen) = Inr (partition_by key_of (seen @ [x]))"
proof -
  let ?k = "key_of x"
  let ?ks = "first_seen (map key_of seen)"
  let ?F = "\<lambda>k. filter (\<lambda>y. key_of y = k) seen"
  have np: "?k \<noteq> ''__proto__''" using assms proto_key_member by auto
  have d: "distinct ?ks" by (rule distinct_first_seen)
  have P: "partition_by key_of seen = map (\<lambda>k. (k, ?F k)) ?ks" by (simp add: partition_by_def)
  show ?thesis
  proof (cases "?k \<in> set (map key_of seen)")
    case True
    then have m: "?k \<in> set ?ks" by (simp add: set_first_seen)
    have fs: "first_seen (map key_of (seen @ [x])) = ?ks" using True by (simp add: first_seen_snoc)
    have "group_step ?k x (partition_by key_of seen)
        = Inr (obj_update ?k (?F ?k @ [x]) (map (\<lambda>k. (k, ?F k)) ?ks))"
      using m by (simp add: group_step_def P map_of_map_keys)
    also have "obj_update ?k (?F ?k @ [x]) (map (\<lambda>k. (k, ?F k)) ?ks)
        = map (\<lambda>k'. (k', if k' = ?k then ?F ?k @ [x] else ?F k')) ?ks"
      using m by (simp add: obj_update_map [OF d])
    also have "\<dots> = map (\<lambda>k. (k, filter (\<lambda>y. key_of y = k) (seen @ [x]))) ?ks"
      by (rule map_cong) auto
    also have "\<dots> = partition_by key_of (seen @ [x])"
      unfolding partition_by_def fs ..
    finally show ?thesis .
  next
    case False
    then have m: "?k \<notin> set ?ks" by (simp add: set_first_seen)
    have fs: "first_seen (map key_of (seen @ [x])) = ?ks @ [?k]"
      using False by (simp add: first_seen_snoc)
    have "\<And>y. y \<in> set seen \<Longrightarrow> key_of y \<noteq> ?k"
    proof
      fix y assume "y \<in> set seen" "key_of y = ?k"
      then have "?k \<in> key_of ` set seen" by (metis imageI)
      then show False using False by simp
    qed
    then have e: "?F ?k = []" by (simp add: filter_empty_conv)
    have nk: "?k \<notin> fst ` set (map (\<lambda>k. (k, ?F k)) ?ks)" using m by (auto simp: image_iff)
    have "group_step ?k x (partition_by key_of seen)
        = Inr (obj_update ?k [x] (obj_assign ?k [] (map (\<lambda>k. (k, ?F k)) ?ks)))"
      using m assms by (simp add: group_step_def P map_of_map_keys)
    also have "obj_assign ?k [] (map (\<lambda>k. (k, ?F k)) ?ks) = map (\<lambda>k. (k, ?F k)) ?ks @ [(?k, [])]"
      using np by (simp add: obj_assign_def obj_update_new [OF nk])
    also have "obj_update ?k [x] (map (\<lambda>k. (k, ?F k)) ?ks @ [(?k, [])])
        = map (\<lambda>k. (k, ?F k)) ?ks @ [(?k, [x])]"
      by (rule obj_update_last [OF nk])
    also have "map (\<lambda>k. (k, ?F k)) ?ks = map (\<lambda>k. (k, filter (\<lambda>y. key_of y = k) (seen @ [x]))) ?ks"
      using m by (intro map_cong) auto
    also have "\<dots> @ [(?k, [x])] = partition_by key_of (seen @ [x])"
      unfolding partition_by_def fs using e by simp
    finally show ?thesis .
  qed
qed

lemma group_step_proto:
  assumes "key_of x \<in> set object_prototype_keys"
    and "list_all (\<lambda>y. key_of y \<notin> set object_prototype_keys) seen"
  shows "group_step (key_of x) x (partition_by key_of seen) = Inl TypeError"
proof -
  have "key_of x \<notin> set (first_seen (map key_of seen))"
    using assms by (auto simp: set_first_seen list_all_iff)
  then show ?thesis
    using assms(1) by (simp add: group_step_def partition_by_def map_of_map_keys)
qed

lemma group_reduce_partition:
  "list_all (\<lambda>y. key_of y \<notin> set object_prototype_keys) seen \<Longrightarrow>
   group_reduce key_of rest (partition_by key_of seen)
     = (if list_ex (\<lambda>x. key_of x \<in> set object_prototype_keys) rest then Inl TypeError
        else Inr (partition_by key_of (seen @ rest)))"
proof (induction rest arbitrary: seen)
  case Nil
  then show ?case by simp
next
  case (Cons x rest)
  show ?case
  proof (cases "key_of x \<in> set object_prototype_keys")
    case True
    then show ?thesis using group_step_proto [of key_of x seen] Cons.prems by simp
  next
    case False
    have "list_all (\<lambda>y. key_of y \<notin> set object_prototype_keys) (seen @ [x])"
      using Cons.prems False by simp
    from Cons.IH [OF this] show ?thesis
      using False group_step_partition [of key_of x seen] by simp
  qed
qed

lemma groupData_partition:
  "groupData key_of data
     = (if list_ex (\<lambda>x. key_of x \<in> set object_prototype_keys) data then Inl TypeError
        else Inr (partition_by key_of data))"
  using group_reduce_partition [of key_of "[]" data]
  by (simp add: groupData_def partition_by_Nil)


lemma sum_length_filter_Cons:
  "distinct ks \<Longrightarrow>
   sum_list (map (\<lambda>k. length (filter (\<lambda>y. f y = k) (x # xs))) ks)
     = sum_list (map (\<lambda>k. length (filter (\<lambda>y. f y = k) xs)) ks) + (if f x \<in> set ks then 1 else 0)"
  by (induction ks) auto

lemma sum_length_filter_keys:
  "distinct ks \<Longrightarrow> f ` set xs \<subseteq> set ks \<Longrightarrow>
   sum_list (map (\<lambda>k. length (filter (\<lambda>y. f y = k) xs)) ks) = length xs"
proof (induction xs)
  case Nil
  then show ?case by simp
next
  case (Cons x xs)
  then have "f x \<in> set ks" and "f ` set xs \<subseteq> set ks" by auto
  with Cons show ?case by (simp only: sum_length_filter_Cons [OF Cons.prems(1)]) simp
qed

lemma partition_by_total:
  "sum_list (map (\<lambda>(k, items). length items) (partition_by key_of data)) = length data"
proof -
  have "sum_list (map (\<lambda>(k, items). length items) (partition_by key_of data))
      = sum_list (map (\<lambda>k. length (filter (\<lambda>y. key_of y = k) data)) (first_seen (map key_of data)))"
    by (simp add: partition_by_def comp_def)
  also have "\<dots> = length data"
    by (rule sum_length_filter_keys) (simp_all add: distinct_first_seen set_first_seen)
  finally show ?thesis .
qed

lemma partition_by_keys: "map fst (partition_by key_of data) = first_seen (map key_of data)"
  by (simp add: partition_by_def comp_def)

lemma partition_by_stable:
  "list_all (\<lambda>(k, items). items = filter (\<lambda>x. key_of x = k) data \<and> items \<noteq> [])
     (partition_by key_of data)"
proof -
  have "\<And>k. k \<in> set (first_seen (map key_of data)) \<Longrightarrow> filter (\<lambda>x. key_of x = k) data \<noteq> []"
    by (auto simp: set_first_seen filter_empty_conv)
  then show ?thesis by (simp add: partition_by_def list_all_iff)
qed

lemma filter_sort_key_none:
  "list_all (\<lambda>p. \<not> P p) xs \<Longrightarrow> filter P (sort_key f xs) = []"
  by (simp add: filter_empty_conv list_all_iff)

lemma Object_entries_other_keys:
  "filter (\<lambda>k. \<not> is_array_index k) (map fst (Object_entries g))
     = filter (\<lambda>k. \<not> is_array_index k) (map fst g)"
proof -
  have "filter (\<lambda>p. \<not> is_array_index (fst p))
          (sort_key (\<lambda>p. digits_value (fst p)) (filter (\<lambda>p. is_array_index (fst p)) g)) = []"
    by (simp add: filter_empty_conv)
  then show ?thesis by (simp add: Object_entries_def filter_map comp_def)
qed

lemma Object_entries_index_keys:
  "filter (\<lambda>p. is_array_index (fst p)) (Object_entries g)
     = sort_key (\<lambda>p. digits_value (fst p)) (filter (\<lambda>p. is_array_index (fst p)) g)"
proof -
  have "filter (\<lambda>p. is_array_index (fst p))
          (sort_key (\<lambda>p. digits_value (fst p)) (filter (\<lambda>p. is_array_index (fst p)) g))
        = sort_key (\<lambda>p. digits_value (fst p)) (filter (\<lambda>p. is_array_index (fst p)) g)"
    by (rule filter_True) simp
  then show ?thesis by (simp add: Object_entries_def)
qed

lemma Object_entries_set: "set (Object_entries g) = set g"
  by (auto simp: Object_entries_def)

lemma Object_entries_no_index:
  "list_all (\<lambda>p. \<not> is_array_index (fst p)) g \<Longrightarrow> Object_entries g = g"
  by (simp add: Object_entries_def list_all_iff filter_empty_conv)


lemma Section_build_collapsed:
  "T \<noteq> [] \<Longrightarrow>
   Section_build (SectionConfig (Some T) l True items flds sm subs) r
     = ([TitleRow l T (if items \<noteq> [] \<or> subs \<noteq> [] then Some True else None)], r + 1)"
  by (simp add: string_truthy_def Let_def)

lemma Section_build_subs_groups:
  "Section_build_subs
     (map (\<lambda>(key, items). SectionConfig (Some (txt @ '': '' @ key)) l True items flds (sm key) [])
        entries) r
   = (map (\<lambda>(key, items). TitleRow l (txt @ '': '' @ key) (if items \<noteq> [] then Some True else None))
        entries,
      r + length entries)"
proof (induction entries arbitrary: r)
  case Nil
  show ?case by simp
next
  case (Cons e entries)
  obtain key items where e: "e = (key, items)" by (cases e)
  show ?case
    unfolding e using Cons [of "r + 1"]
    by (simp add: Section_build_collapsed del: Section_build.simps)
qed

lemma data_records_title_rows:
  "data_records (map (\<lambda>(key, items). TitleRow l (F key) (G items)) entries) = []"
  by (induction entries) auto

lemma titles_at_title_rows:
  "titles_at l (map (\<lambda>(key, items). TitleRow l (F key) (G items)) entries) = map (\<lambda>e. F (fst e)) entries"
  by (induction entries) auto

lemma data_records_append: "data_records (xs @ ys) = data_records xs @ data_records ys"
  by (induction xs rule: data_records.induct) simp_all

lemma titles_at_append: "titles_at l (xs @ ys) = titles_at l xs @ titles_at l ys"
  by (induction l xs rule: titles_at.induct) simp_all

lemma createFromData_grouped:
  assumes g: "co_groupBy options = Some g"
    and np: "\<not> list_ex (\<lambda>x. gb_key g x \<in> set object_prototype_keys) data"
  shows "createFromData keys_of data options b
     = Inr (b\<lparr>sbd_rows := sbd_rows b
                 @ group_rows g (case co_level options of None \<Rightarrow> 0 | Some l \<Rightarrow> l)
                     (case co_collapsed options of None \<Rightarrow> False | Some c \<Rightarrow> c)
                     (co_title options) data,
              sbd_currentRow := sbd_currentRow b
                 + length (group_rows g (case co_level options of None \<Rightarrow> 0 | Some l \<Rightarrow> l)
                     (case co_collapsed options of None \<Rightarrow> False | Some c \<Rightarrow> c)
                     (co_title options) data)\<rparr>)"
proof -
  define level where "level = (case co_level options of None \<Rightarrow> 0 | Some l \<Rightarrow> l)"
  define collapsed where "collapsed = (case co_collapsed options of None \<Rightarrow> False | Some c \<Rightarrow> c)"
  define flds where "flds = (case co_fields options of
                      Some fs \<Rightarrow> fs
                    | None \<Rightarrow> (case data of [] \<Rightarrow> [] | item # _ \<Rightarrow> keys_of item))"
  define entries where "entries = Object_entries (partition_by (gb_key g) data)"
  define subs where "subs = map (\<lambda>(key, items).
         SectionConfig (Some (gb_text g @ '': '' @ key)) (level + 1) True items (Some flds)
           (summary_of (co_summary options) (''Total for '' @ key)) []) entries"
  have ne: "list_all (\<lambda>(key, items). items \<noteq> []) entries"
    using partition_by_stable [of "gb_key g" data]
    by (auto simp: entries_def list_all_iff Object_entries_set)
  have cfg: "createFromData_config keys_of data options
      = Inr (SectionConfig (Some (co_title options)) level collapsed [] None None subs)"
    using g np
    by (simp add: createFromData_config_def groupData_partition Let_def level_def collapsed_def
        flds_def subs_def entries_def)
  have sb: "Section_build_subs subs r
      = (map (\<lambda>(key, items). TitleRow (level + 1) (gb_text g @ '': '' @ key)
               (if items \<noteq> [] then Some True else None)) entries, r + length entries)" for r
    unfolding subs_def by (rule Section_build_subs_groups)
  have "map (\<lambda>(key, items). TitleRow (level + 1) (gb_text g @ '': '' @ key)
               (if items \<noteq> [] then Some True else None)) entries
      = map (\<lambda>(key, items). TitleRow (level + 1) (gb_text g @ '': '' @ key) (Some True)) entries"
    using ne by (intro map_cong) (auto simp: list_all_iff)
  with sb have sb': "Section_build_subs subs r
      = (map (\<lambda>(key, items). TitleRow (level + 1) (gb_text g @ '': '' @ key) (Some True)) entries,
         r + length entries)" for r
    by simp
  have se: "(subs \<noteq> []) = (entries \<noteq> [])" by (simp add: subs_def)
  have build: "Section_build (SectionConfig (Some (co_title options)) level collapsed [] None None subs) r
      = (group_rows g level collapsed (co_title options) data,
         r + length (group_rows g level collapsed (co_title options) data))" for r
    by (simp add: group_rows_def Let_def string_truthy_def sb' se entries_def [symmetric])
  show ?thesis
    unfolding level_def [symmetric] collapsed_def [symmetric]
    by (simp add: createFromData_def cfg addSection_def build del: Section_build.simps)
qed

text \<open>
  Three records with the keys 2, 1, 2 grouped by key: the section has a title row for the
  main section and one per group, no data row, and the groups come in the order 1, 2 while
  the keys were first seen in the order 2, 1.
\<close>

theorem grouped_sections_counterexample:
  "createFromData record_keys [(''2'', 10), (''1'', 20), (''2'', 30)] report_options
     \<lparr>sbd_rows = [], sbd_currentRow = 0\<rparr>
   = Inr \<lparr>sbd_rows = [TitleRow 0 ''Report'' (Some False), TitleRow 1 ''kind: 1'' (Some True),
                      TitleRow 1 ''kind: 2'' (Some True)],
          sbd_currentRow = 3\<rparr>
   \<and> data_records [TitleRow 0 ''Report'' (Some False), TitleRow 1 ''kind: 1'' (Some True),
                    TitleRow 1 ''kind: 2'' (Some True) :: (string \<times> int) section_row] = []
   \<and> first_seen (map record_kind [(''2'', 10), (''1'', 20), (''2'', 30)]) = [''2'', ''1'']"
  by code_simp

text \<open>
  Claim C2, as the code has it. \<^verbatim>\<open>groupData\<close> throws a TypeError when a key is the name of
  a property of \<^verbatim>\<open>Object.prototype\<close>, and otherwise returns the stable partition of the
  records by key: one group per distinct key, created in first-seen key order, each group
  holding exactly the records with its key in their original order and never empty, the group
  sizes adding up to the number of records. \<^verbatim>\<open>Object.entries\<close> keeps the keys that are not
  array indices in that first-seen order. \<^verbatim>\<open>createFromData\<close> with a \<^verbatim>\<open>groupBy\<close> (and no
  such key) appends the title row of the main section and, unless that section is collapsed,
  one title row per group in \<^verbatim>\<open>Object.entries\<close> order; every group is created collapsed,
  so no data row is emitted for any record.
\<close>

theorem createFromData_groups:
  "groupData key_of data
      = (if list_ex (\<lambda>x. key_of x \<in> set object_prototype_keys) data then Inl TypeError
         else Inr (partition_by key_of data))
   \<and> map fst (partition_by key_of data) = first_seen (map key_of data)
   \<and> list_all (\<lambda>(k, items). items = filter (\<lambda>x. key_of x = k) data \<and> items \<noteq> [])
        (partition_by key_of data)
   \<and> sum_list (map (\<lambda>(k, items). length items) (partition_by key_of data)) = length data
   \<and> filter (\<lambda>k. \<not> is_array_index k) (map fst (Object_entries (partition_by key_of data)))
        = filter (\<lambda>k. \<not> is_array_index k) (first_seen (map key_of data))
   \<and> (co_groupBy options = Some g
        \<and> \<not> list_ex (\<lambda>x. gb_key g x \<in> set object_prototype_keys) data
        \<and> level = (case co_level options of None \<Rightarrow> 0 | Some l \<Rightarrow> l)
        \<and> collapsed = (case co_collapsed options of None \<Rightarrow> False | Some c \<Rightarrow> c) \<longrightarrow>
        createFromData keys_of data options b
          = Inr (b\<lparr>sbd_rows := sbd_rows b @ group_rows g level collapsed (co_title options) data,
                   sbd_currentRow := sbd_currentRow b
                      + length (group_rows g level collapsed (co_title options) data)\<rparr>)
        \<and> data_records (group_rows g level collapsed (co_title options) data) = []
        \<and> (\<not> collapsed \<longrightarrow>
             titles_at (level + 1) (group_rows g level collapsed (co_title options) data)
               = map (\<lambda>k. gb_text g @ '': '' @ k)
                   (map fst (Object_entries (partition_by (gb_key g) data)))))"
proof (intro conjI impI)
  show "groupData key_of data
      = (if list_ex (\<lambda>x. key_of x \<in> set object_prototype_keys) data then Inl TypeError
         else Inr (partition_by key_of data))"
    by (rule groupData_partition)
  show "map fst (partition_by key_of data) = first_seen (map key_of data)"
    by (rule partition_by_keys)
  show "list_all (\<lambda>(k, items). items = filter (\<lambda>x. key_of x = k) data \<and> items \<noteq> [])
        (partition_by key_of data)"
    by (rule partition_by_stable)
  show "sum_list (map (\<lambda>(k, items). length items) (partition_by key_of data)) = length data"
    by (rule partition_by_total)
  show "filter (\<lambda>k. \<not> is_array_index k) (map fst (Object_entries (partition_by key_of data)))
        = filter (\<lambda>k. \<not> is_array_index k) (first_seen (map key_of data))"
    by (simp only: Object_entries_other_keys partition_by_keys)
next
  assume a: "co_groupBy options = Some g
        \<and> \<not> list_ex (\<lambda>x. gb_key g x \<in> set object_prototype_keys) data
        \<and> level = (case co_level options of None \<Rightarrow> 0 | Some l \<Rightarrow> l)
        \<and> collapsed = (case co_collapsed options of None \<Rightarrow> False | Some c \<Rightarrow> c)"
  then show "createFromData keys_of data options b
          = Inr (b\<lparr>sbd_rows := sbd_rows b @ group_rows g level collapsed (co_title options) data,
                   sbd_currentRow := sbd_currentRow b
                      + length (group_rows g level collapsed (co_title options) data)\<rparr>)"
    using createFromData_grouped [of options g data keys_of b] by simp
  show "data_records (group_rows g level collapsed (co_title options) data) = []"
    by (simp add: group_rows_def Let_def data_records_append data_records_title_rows)
next
  assume "\<not> collapsed"
  then show "titles_at (level + 1) (group_rows g level collapsed (co_title options) data)
               = map (\<lambda>k. gb_text g @ '': '' @ k)
                   (map fst (Object_entries (partition_by (gb_key g) data)))"
    by (simp add: group_rows_def Let_def titles_at_append titles_at_title_rows comp_def)
qed


theorem createFromData_groups_witness:
  "co_groupBy report_options = Some by_kind
   \<and> \<not> list_ex (\<lambda>x. gb_key by_kind x \<in> set object_prototype_keys)
          [(''b'', 1), (''a'', 2), (''b'', 3)]
   \<and> createFromData record_keys [(''b'', 1), (''a'', 2), (''b'', 3)] report_options
        \<lparr>sbd_rows = [], sbd_currentRow = 0\<rparr>
      = Inr \<lparr>sbd_rows = [TitleRow 0 ''Report'' (Some False), TitleRow 1 ''kind: b'' (Some True),
                         TitleRow 1 ''kind: a'' (Some True)],
             sbd_currentRow = 3\<rparr>
   \<and> groupData record_kind [(''b'', 1), (''a'', 2), (''b'', 3)]
      = Inr [(''b'', [(''b'', 1), (''b'', 3)]), (''a'', [(''a'', 2)])]"
proof -
  let ?data = "[(''b'', 1), (''a'', 2), (''b'', 3)] :: (string \<times> int) list"
  let ?b = "\<lparr>sbd_rows = [], sbd_currentRow = 0\<rparr> :: (string \<times> int) SectionBuilder"
  note t = createFromData_groups [where key_of = record_kind and data = ?data
      and options = report_options and g = by_kind and level = 0 and collapsed = False
      and keys_of = record_keys and b = ?b]
  have h1: "co_groupBy report_options = Some by_kind" by (simp add: report_options_def)
  have h2: "\<not> list_ex (\<lambda>x. gb_key by_kind x \<in> set object_prototype_keys) ?data" by code_simp
  have h3: "(0 :: int) = (case co_level report_options of None \<Rightarrow> 0 | Some l \<Rightarrow> l)"
    by (simp add: report_options_def)
  have h4: "False = (case co_collapsed report_options of None \<Rightarrow> False | Some c \<Rightarrow> c)"
    by (simp add: report_options_def)
  from t h1 h2 h3 h4 have c: "createFromData record_keys ?data report_options ?b
      = Inr (?b\<lparr>sbd_rows := sbd_rows ?b @ group_rows by_kind 0 False (co_title report_options) ?data,
               sbd_currentRow := sbd_currentRow ?b
                  + length (group_rows by_kind 0 False (co_title report_options) ?data)\<rparr>)"
    by blast
  have ev: "group_rows by_kind 0 False (co_title report_options) ?data
      = [TitleRow 0 ''Report'' (Some False), TitleRow 1 ''kind: b'' (Some True),
         TitleRow 1 ''kind: a'' (Some True)]"
    by code_simp
  have np: "\<not> list_ex (\<lambda>x. record_kind x \<in> set object_prototype_keys) ?data" by code_simp
  from t np have gd: "groupData record_kind ?data = Inr (partition_by record_kind ?data)"
    by simp
  have pv: "partition_by record_kind ?data
      = [(''b'', [(''b'', 1), (''b'', 3)]), (''a'', [(''a'', 2)])]"
    by code_simp
  show ?thesis using h1 h2 c gd unfolding ev pv by simp
qed

end
